theory Spec2Isabelle
  imports Complex_Main
begin

section \<open>Strings\<close>

text \<open>
  A JavaScript string is modelled as the list of its code units, restricted to
  U+0000..U+00FF (the range of \<^typ>\<open>char\<close>).  \<open>String.prototype.trim\<close> strips
  WhiteSpace and LineTerminator code units from both ends; in this range they are
  TAB, LF, VT, FF, CR, SPACE and NBSP.
\<close>

definition is_space :: "char \<Rightarrow> bool" where
  "is_space c \<longleftrightarrow>
     c \<in> set [CHR 0x09, CHR 0x0A, CHR 0x0B, CHR 0x0C, CHR 0x0D, CHR 0x20, CHR 0xA0]"

definition trim :: "string \<Rightarrow> string" where
  "trim s = rev (dropWhile is_space (rev (dropWhile is_space s)))"

text \<open>\<open>Array.prototype.join\<close> on an array of strings.\<close>

fun join :: "string \<Rightarrow> string list \<Rightarrow> string" where
  "join sep [] = []"
| "join sep [x] = x"
| "join sep (x # y # ys) = x @ sep @ join sep (y # ys)"

text \<open>
  Template interpolation of an optional string operand used as \<open>x || ''\<close> and as a
  condition: \<open>undefined\<close> and the empty string are falsy.
\<close>

definition truthy :: "string option \<Rightarrow> bool" where
  "truthy v = (case v of None \<Rightarrow> False | Some s \<Rightarrow> s \<noteq> [])"

definition or_empty :: "string option \<Rightarrow> string" where
  "or_empty v = (if truthy v then the v else [])"

text \<open>Decimal rendering of a non-negative integer, as \<open>`${n}`\<close> gives it.\<close>

definition digit_char :: "nat \<Rightarrow> char" where
  "digit_char d = ''0123456789'' ! d"

function toString_nat :: "nat \<Rightarrow> string" where
  "toString_nat n =
     (if n < 10 then [digit_char n] else toString_nat (n div 10) @ [digit_char (n mod 10)])"
  by pat_completeness auto
termination
  by (relation "measure (\<lambda>n. n)") auto

declare toString_nat.simps [simp del]

text \<open>\<open>`${status}`\<close> for \<open>status: number | undefined\<close>.\<close>

definition template_status :: "nat option \<Rightarrow> string" where
  "template_status s = (case s of None \<Rightarrow> ''undefined'' | Some n \<Rightarrow> toString_nat n)"


section \<open>JSON values\<close>

text \<open>
  The value \<open>response.data\<close> that the transport hands over, and the request payloads.
  An object is an association list read with \<^const>\<open>map_of\<close>; a key that is absent
  reads as \<open>undefined\<close>, modelled by \<^const>\<open>None\<close>.
\<close>

datatype json =
  JNull
| JBool bool
| JNum real
| JStr string
| JArr "json list"
| JObj "(string \<times> json) list"

text \<open>Property access \<open>v[k]\<close> on a JSON value, for the keys the program reads.\<close>

definition field :: "json \<Rightarrow> string \<Rightarrow> json option" where
  "field v k = (case v of JObj kvs \<Rightarrow> map_of kvs k | _ \<Rightarrow> None)"

text \<open>A property whose value is \<open>undefined\<close> is left out of the serialised payload.\<close>

definition opt_field :: "string \<Rightarrow> json option \<Rightarrow> (string \<times> json) list" where
  "opt_field k v = (case v of None \<Rightarrow> [] | Some x \<Rightarrow> [(k, x)])"


section \<open>Model identifiers (mistral.ts, lines 6--11)\<close>

datatype MistralModel = CODESTRAL | CODESTRAL_MAMBA

definition MISTRAL_MODELS :: "MistralModel \<Rightarrow> string" where
  "MISTRAL_MODELS m =
     (case m of CODESTRAL \<Rightarrow> ''codestral-latest'' | CODESTRAL_MAMBA \<Rightarrow> ''codestral-mamba-latest'')"

definition MISTRAL_API_BASE :: string where
  "MISTRAL_API_BASE = ''https://api.mistral.ai/v1''"


section \<open>Prompt builder (mistral.ts, lines 193--224)\<close>

datatype task = Task_complete | Task_fix | Task_test | Task_fim

record chat_message =
  role :: string
  content :: string

definition systemPrompts :: "task \<Rightarrow> string" where
  "systemPrompts t =
     (case t of
        Task_complete \<Rightarrow>
          ''You are an expert programmer. Continue or complete the provided code according to best practices.''
      | Task_fix \<Rightarrow>
          ''You are an expert programmer. Analyze the code for bugs and provide a corrected version with explanations of the fixes.''
      | Task_test \<Rightarrow>
          ''You are an expert programmer. Generate comprehensive unit tests for the provided code using appropriate testing frameworks.''
      | Task_fim \<Rightarrow>
          ''You are an expert programmer. Complete the code between the given start and end sections, ensuring it flows naturally.'')"

definition createPrompt ::
  "string \<Rightarrow> string option \<Rightarrow> task \<Rightarrow> string option \<Rightarrow> chat_message list" where
  "createPrompt code language t suffix =
     (let langStr = (if truthy language then '' '' @ the language else '''');
          userContent =
            ''Here is the'' @ langStr @ '' code:\<newline>\<newline>```'' @ or_empty language
              @ ''\<newline>'' @ code @ ''\<newline>```'';
          userContent' =
            (if t = Task_fim \<and> truthy suffix
             then userContent @ ''\<newline>\<newline>The code should end with:\<newline>\<newline>```''
               @ or_empty language @ ''\<newline>'' @ the suffix @ ''\<newline>```''
             else userContent)
      in [\<lparr>role = ''system'', content = systemPrompts t\<rparr>,
          \<lparr>role = ''user'', content = userContent'\<rparr>])"


text \<open>The text of the user content that precedes its first fence.\<close>

definition header :: "string option \<Rightarrow> string" where
  "header language =
     ''Here is the'' @ (if truthy language then '' '' @ the language else []) @ '' code:\<newline>\<newline>''"


section \<open>Client construction (mistral.ts, lines 36--54 and 226--228)\<close>

record axios_config =
  baseURL :: string
  headers :: "(string \<times> string) list"
  timeout :: nat

record MistralAPI =
  apiKey :: string
  client :: axios_config
  lastRequestTime :: int
  minRequestInterval :: int

text \<open>
  Thrown values.  The code throws plain \<open>Error\<close> objects told apart by their message
  only; \<open>ZodError\<close> is what \<open>CompletionResponseSchema.parse\<close> throws.  The spec's
  names for them: \<open>ConfigError\<close> is \<open>Error ''API key cannot be empty''\<close>, \<open>SchemaError\<close>
  is \<open>ZodError\<close>, and the API errors are the four messages of the \<open>switch\<close> below.
\<close>

datatype path_elem = Key string | Idx nat

datatype parsed_type =
  T_undefined | T_null | T_boolean | T_number | T_string | T_array | T_object

record zod_issue =
  path :: "path_elem list"
  expected :: parsed_type
  received :: parsed_type

datatype js_error = Error string | ZodError "zod_issue list"

definition MistralAPI_constructor :: "string \<Rightarrow> js_error + MistralAPI" where
  "MistralAPI_constructor k =
     (if k = [] \<or> length (trim k) = 0 then Inl (Error ''API key cannot be empty'')
      else Inr \<lparr>apiKey = trim k,
                client = \<lparr>baseURL = MISTRAL_API_BASE,
                           headers = [(''Authorization'', ''Bearer '' @ trim k),
                                      (''Content-Type'', ''application/json''),
                                      (''Accept'', ''application/json'')],
                           timeout = 30000\<rparr>,
                lastRequestTime = 0,
                minRequestInterval = 100\<rparr>)"


section \<open>The singleton accessor (mistral.ts, lines 244--252)\<close>

text \<open>
  Objects have identity: the process keeps the \<open>MistralAPI\<close> objects constructed so far
  in a store, addressed by position, and the module variable \<open>instance\<close> holds \<open>null\<close>
  or a reference into it.  A constructor that throws allocates nothing and leaves the
  variable as it was.
\<close>

record process =
  store :: "MistralAPI list"
  instance_var :: "nat option"

definition getMistralAPI :: "string \<Rightarrow> process \<Rightarrow> (js_error + nat) \<times> process" where
  "getMistralAPI k p =
     (case instance_var p of
        Some r \<Rightarrow> (Inr r, p)
      | None \<Rightarrow>
          (case MistralAPI_constructor k of
             Inl e \<Rightarrow> (Inl e, p)
           | Inr a \<Rightarrow>
               (Inr (length (store p)),
                p\<lparr>store := store p @ [a], instance_var := Some (length (store p))\<rparr>)))"

text \<open>A sequence of accessor calls, one per credential, with the results in order.\<close>

fun getMistralAPI_seq :: "string list \<Rightarrow> process \<Rightarrow> (js_error + nat) list \<times> process" where
  "getMistralAPI_seq [] p = ([], p)"
| "getMistralAPI_seq (k # ks) p =
     (let (r, p') = getMistralAPI k p; (rs, p'') = getMistralAPI_seq ks p' in (r # rs, p''))"


section \<open>Response schema (mistral.ts, lines 13--34)\<close>

text \<open>
  \<open>CompletionResponseSchema.parse\<close>, with the behaviour of the zod combinators the schema
  is built from: \<open>z.string()\<close> and \<open>z.number()\<close> accept a value of that JavaScript type,
  \<open>z.array(s)\<close> accepts an array (of any length, the empty one included, since the schema
  puts no \<open>min\<close>/\<open>nonempty\<close> on it) whose elements \<open>s\<close> accepts, \<open>z.object\<close> accepts an
  object, reads the keys of its shape and drops every other key, and \<open>.optional()\<close> also
  accepts \<open>undefined\<close> (but not \<open>null\<close>).  A failure reports one \<open>invalid_type\<close> issue per
  offending place; issues of all places are collected.
\<close>

record usage_t =
  prompt_tokens :: real
  completion_tokens :: real
  total_tokens :: real

record choice =
  index :: real
  message :: chat_message
  finish_reason :: "string option"

record CompletionResponse =
  id_str :: string
  object :: string
  created :: real
  model_str :: string
  choices :: "choice list"
  usage :: usage_t

type_synonym 'a parse_result = "zod_issue list + 'a"

definition getParsedType :: "json option \<Rightarrow> parsed_type" where
  "getParsedType v =
     (case v of
        None \<Rightarrow> T_undefined
      | Some JNull \<Rightarrow> T_null
      | Some (JBool _) \<Rightarrow> T_boolean
      | Some (JNum _) \<Rightarrow> T_number
      | Some (JStr _) \<Rightarrow> T_string
      | Some (JArr _) \<Rightarrow> T_array
      | Some (JObj _) \<Rightarrow> T_object)"

definition invalid_type :: "path_elem list \<Rightarrow> parsed_type \<Rightarrow> json option \<Rightarrow> 'a parse_result" where
  "invalid_type p e v = Inl [\<lparr>path = p, expected = e, received = getParsedType v\<rparr>]"

definition issues_of :: "'a parse_result \<Rightarrow> zod_issue list" where
  "issues_of r = (case r of Inl is \<Rightarrow> is | Inr _ \<Rightarrow> [])"

text \<open>Applying a record constructor to one more parsed field, keeping every issue.\<close>

definition zap :: "('a \<Rightarrow> 'b) parse_result \<Rightarrow> 'a parse_result \<Rightarrow> 'b parse_result" where
  "zap f x =
     (case f of
        Inr g \<Rightarrow> (case x of Inr v \<Rightarrow> Inr (g v) | Inl is \<Rightarrow> Inl is)
      | Inl is \<Rightarrow> Inl (is @ issues_of x))"

definition z_string :: "path_elem list \<Rightarrow> json option \<Rightarrow> string parse_result" where
  "z_string p v = (case v of Some (JStr s) \<Rightarrow> Inr s | _ \<Rightarrow> invalid_type p T_string v)"

definition z_number :: "path_elem list \<Rightarrow> json option \<Rightarrow> real parse_result" where
  "z_number p v = (case v of Some (JNum n) \<Rightarrow> Inr n | _ \<Rightarrow> invalid_type p T_number v)"

definition z_optional ::
  "(path_elem list \<Rightarrow> json option \<Rightarrow> 'a parse_result) \<Rightarrow>
   path_elem list \<Rightarrow> json option \<Rightarrow> 'a option parse_result" where
  "z_optional s p v = (case v of None \<Rightarrow> Inr None | Some _ \<Rightarrow> zap (Inr Some) (s p v))"

fun z_elements ::
  "(path_elem list \<Rightarrow> json option \<Rightarrow> 'a parse_result) \<Rightarrow>
   path_elem list \<Rightarrow> nat \<Rightarrow> json list \<Rightarrow> 'a list parse_result" where
  "z_elements s p i [] = Inr []"
| "z_elements s p i (x # xs) =
     zap (zap (Inr (#)) (s (p @ [Idx i]) (Some x))) (z_elements s p (Suc i) xs)"

definition z_array ::
  "(path_elem list \<Rightarrow> json option \<Rightarrow> 'a parse_result) \<Rightarrow>
   path_elem list \<Rightarrow> json option \<Rightarrow> 'a list parse_result" where
  "z_array s p v = (case v of Some (JArr xs) \<Rightarrow> z_elements s p 0 xs | _ \<Rightarrow> invalid_type p T_array v)"

definition message_schema :: "path_elem list \<Rightarrow> json option \<Rightarrow> chat_message parse_result" where
  "message_schema p v =
     (case v of
        Some (JObj kvs) \<Rightarrow>
          zap (zap (Inr (\<lambda>r c. \<lparr>role = r, content = c\<rparr>))
            (z_string (p @ [Key ''role'']) (map_of kvs ''role'')))
            (z_string (p @ [Key ''content'']) (map_of kvs ''content''))
      | _ \<Rightarrow> invalid_type p T_object v)"

definition choice_schema :: "path_elem list \<Rightarrow> json option \<Rightarrow> choice parse_result" where
  "choice_schema p v =
     (case v of
        Some (JObj kvs) \<Rightarrow>
          zap (zap (zap (Inr (\<lambda>i m f. \<lparr>index = i, message = m, finish_reason = f\<rparr>))
            (z_number (p @ [Key ''index'']) (map_of kvs ''index'')))
            (message_schema (p @ [Key ''message'']) (map_of kvs ''message'')))
            (z_optional z_string (p @ [Key ''finish_reason'']) (map_of kvs ''finish_reason''))
      | _ \<Rightarrow> invalid_type p T_object v)"

definition usage_schema :: "path_elem list \<Rightarrow> json option \<Rightarrow> usage_t parse_result" where
  "usage_schema p v =
     (case v of
        Some (JObj kvs) \<Rightarrow>
          zap (zap (zap
            (Inr (\<lambda>a b c. \<lparr>prompt_tokens = a, completion_tokens = b, total_tokens = c\<rparr>))
            (z_number (p @ [Key ''prompt_tokens'']) (map_of kvs ''prompt_tokens'')))
            (z_number (p @ [Key ''completion_tokens'']) (map_of kvs ''completion_tokens'')))
            (z_number (p @ [Key ''total_tokens'']) (map_of kvs ''total_tokens''))
      | _ \<Rightarrow> invalid_type p T_object v)"

definition CompletionResponseSchema :: "json \<Rightarrow> CompletionResponse parse_result" where
  "CompletionResponseSchema d =
     (case d of
        JObj kvs \<Rightarrow>
          zap (zap (zap (zap (zap (zap
            (Inr (\<lambda>i ob c m ch u.
               \<lparr>id_str = i, object = ob, created = c, model_str = m, choices = ch, usage = u\<rparr>))
            (z_string [Key ''id''] (map_of kvs ''id'')))
            (z_string [Key ''object''] (map_of kvs ''object'')))
            (z_number [Key ''created''] (map_of kvs ''created'')))
            (z_string [Key ''model''] (map_of kvs ''model'')))
            (z_array choice_schema [Key ''choices''] (map_of kvs ''choices'')))
            (usage_schema [Key ''usage''] (map_of kvs ''usage''))
      | _ \<Rightarrow> invalid_type [] T_object (Some d))"


section \<open>The transport and the clock\<close>

text \<open>
  The remote service is a parameter: for a request it gives the outcome of
  \<open>await this.client.post(...)\<close> and the time the round trip takes.  The promise is
  fulfilled with \<open>response.data\<close>, or rejected with an \<open>AxiosError\<close>, or with some other
  thrown value.  Of an \<open>AxiosError\<close> the model keeps what the code reads:
  \<open>error.response?.status\<close>, \<open>error.response?.data?.error?.message\<close> (a string, or
  \<open>undefined\<close>; a remote message that is not a string is outside the model),
  \<open>JSON.stringify(error.response?.data)\<close> as interpolated, and \<open>error.message\<close>.
  Diagnostic logging (\<open>console.error\<close>) is left out.
\<close>

record axios_response =
  status :: nat
  data_error_message :: "string option"
  data_stringified :: string

record AxiosError =
  response :: "axios_response option"
  axios_message :: string

datatype http_outcome =
  Resolved json
| Rejected_AxiosError AxiosError
| Rejected js_error

record http_request =
  config :: axios_config
  url :: string
  payload :: json

type_synonym service = "http_request \<Rightarrow> http_outcome \<times> nat"

text \<open>
  The world: the clock \<open>Date.now()\<close> reads (milliseconds), and the requests issued so far,
  each with the time at which it was issued.
\<close>

record world =
  clock :: int
  sent :: "(int \<times> http_request) list"

definition post :: "service \<Rightarrow> axios_config \<Rightarrow> string \<Rightarrow> json \<Rightarrow> world \<Rightarrow> http_outcome \<times> world" where
  "post svc cfg u body w =
     (let req = \<lparr>config = cfg, url = u, payload = body\<rparr>
      in (fst (svc req),
          w\<lparr>sent := sent w @ [(clock w, req)], clock := clock w + int (snd (svc req))\<rparr>))"


section \<open>Completion calls (mistral.ts, lines 77--190)\<close>

record sampling_options =
  temperature :: "real option"
  top_p :: "real option"
  max_tokens :: "real option"
  stop :: "string list option"

record chat_options = sampling_options +
  model :: "MistralModel option"

record fim_options = sampling_options +
  suffix :: "string option"

text \<open>The operator \<open>??\<close>.\<close>

definition nullish :: "'a option \<Rightarrow> 'a \<Rightarrow> 'a" where
  "nullish v d = (case v of None \<Rightarrow> d | Some x \<Rightarrow> x)"

definition chat_payload :: "chat_message list \<Rightarrow> 'a chat_options_scheme \<Rightarrow> json" where
  "chat_payload messages options =
     JObj ([(''model'', JStr (MISTRAL_MODELS (nullish (model options) CODESTRAL))),
            (''messages'',
               JArr (map (\<lambda>m. JObj [(''role'', JStr (role m)), (''content'', JStr (content m))])
                 messages)),
            (''temperature'', JNum (nullish (temperature options) 0.7)),
            (''top_p'', JNum (nullish (top_p options) 1)),
            (''max_tokens'', JNum (nullish (max_tokens options) 1000))]
           @ opt_field ''stop'' (map_option (\<lambda>ss. JArr (map JStr ss)) (stop options)))"

definition fim_payload :: "string \<Rightarrow> 'a fim_options_scheme \<Rightarrow> json" where
  "fim_payload prompt options =
     JObj ([(''model'', JStr (MISTRAL_MODELS CODESTRAL)),
            (''prompt'', JStr prompt)]
           @ opt_field ''suffix'' (map_option JStr (suffix options))
           @ [(''temperature'', JNum (nullish (temperature options) 0)),
              (''top_p'', JNum (nullish (top_p options) 1)),
              (''max_tokens'', JNum (nullish (max_tokens options) 1000))]
           @ opt_field ''stop'' (map_option (\<lambda>ss. JArr (map JStr ss)) (stop options)))"

text \<open>\<open>error.response?.data?.error?.message || error.message\<close>\<close>

definition error_message :: "AxiosError \<Rightarrow> string" where
  "error_message e =
     (let m = (case response e of None \<Rightarrow> None | Some r \<Rightarrow> data_error_message r)
      in if truthy m then the m else axios_message e)"

text \<open>The \<open>switch (status)\<close> of \<open>chatCompletion\<close> (lines 100--114).\<close>

definition chat_api_error :: "AxiosError \<Rightarrow> js_error" where
  "chat_api_error e =
     (let status = map_option status (response e); message = error_message e
      in if status = Some 401 then Error ''Authentication failed. Please check your API key.''
         else if status = Some 429 then Error ''Rate limit exceeded. Please try again later.''
         else if status = Some 500 then Error ''Mistral API server error. Please try again later.''
         else Error (''Mistral API error ('' @ template_status status @ ''): '' @ message))"

text \<open>The \<open>switch (status)\<close> of \<open>fimCompletion\<close> (lines 166--187).\<close>

definition fim_api_error :: "AxiosError \<Rightarrow> js_error" where
  "fim_api_error e =
     (let status = map_option status (response e); message = error_message e
      in if status = Some 401 then Error ''Authentication failed. Please check your API key.''
         else if status = Some 429 then Error ''Rate limit exceeded. Please try again later.''
         else if status = Some 500 then Error ''Mistral API server error. Please try again later.''
         else Error (''Mistral API error ('' @ template_status status @ ''): '' @ message
                @ ''\<newline>Response: ''
                @ (case response e of None \<Rightarrow> ''undefined'' | Some r \<Rightarrow> data_stringified r)))"

text \<open>
  \<open>CompletionResponseSchema.parse(response.data)\<close>: the validated value, or a thrown
  \<open>ZodError\<close>.
\<close>

definition parse :: "json \<Rightarrow> js_error + CompletionResponse" where
  "parse d = (case CompletionResponseSchema d of Inl is \<Rightarrow> Inl (ZodError is) | Inr v \<Rightarrow> Inr v)"

text \<open>
  \<open>chatCompletion\<close>: the request is issued by the first statement of the body; neither
  the clock nor \<open>lastRequestTime\<close> is read or written.  The result comes with the
  object \<open>this\<close> after the call and the world after the call.
\<close>

definition chatCompletion ::
  "service \<Rightarrow> MistralAPI \<Rightarrow> chat_message list \<Rightarrow> 'a chat_options_scheme \<Rightarrow> world \<Rightarrow>
   (js_error + CompletionResponse) \<times> MistralAPI \<times> world" where
  "chatCompletion svc this messages options w =
     (let (outcome, w') = post svc (client this) ''/chat/completions'' (chat_payload messages options) w
      in ((case outcome of
             Resolved d \<Rightarrow> parse d
           | Rejected_AxiosError e \<Rightarrow> Inl (chat_api_error e)
           | Rejected err \<Rightarrow> Inl err),
          this, w'))"

text \<open>
  \<open>fimCompletion\<close>.  In its \<open>catch\<close>, every thrown value that is not an \<open>AxiosError\<close>
  (a \<open>ZodError\<close> included) is replaced by an \<open>Error\<close> quoting \<open>err.message\<close>; how zod
  renders the message of a \<open>ZodError\<close> is the parameter \<open>zod_message\<close>.
\<close>

definition message_of :: "(zod_issue list \<Rightarrow> string) \<Rightarrow> js_error \<Rightarrow> string" where
  "message_of zod_message err = (case err of Error m \<Rightarrow> m | ZodError is \<Rightarrow> zod_message is)"

definition fimCompletion ::
  "(zod_issue list \<Rightarrow> string) \<Rightarrow> service \<Rightarrow> MistralAPI \<Rightarrow> string \<Rightarrow> 'a fim_options_scheme \<Rightarrow>
   world \<Rightarrow> (js_error + CompletionResponse) \<times> MistralAPI \<times> world" where
  "fimCompletion zod_message svc this prompt options w =
     (let (outcome, w') = post svc (client this) ''/fim/completions'' (fim_payload prompt options) w;
          unexpected = (\<lambda>err. Error (''Unexpected error during FIM completion: ''
                                      @ message_of zod_message err))
      in ((case outcome of
             Resolved d \<Rightarrow> (case parse d of Inl err \<Rightarrow> Inl (unexpected err) | Inr v \<Rightarrow> Inr v)
           | Rejected_AxiosError e \<Rightarrow> Inl (fim_api_error e)
           | Rejected err \<Rightarrow> Inl (unexpected err)),
          this, w'))"

text \<open>
  \<open>enforceRateLimit\<close> (lines 226--241), a private method that no other line of the
  repository calls.  \<open>setTimeout\<close> resumes no earlier than the requested delay; \<open>late\<close>
  is by how much later.
\<close>

definition enforceRateLimit :: "nat \<Rightarrow> MistralAPI \<Rightarrow> world \<Rightarrow> MistralAPI \<times> world" where
  "enforceRateLimit late this w =
     (let now = clock w;
          timeSinceLastRequest = now - lastRequestTime this;
          w' = (if timeSinceLastRequest < minRequestInterval this
                then w\<lparr>clock := clock w + (minRequestInterval this - timeSinceLastRequest) + int late\<rparr>
                else w)
      in (this\<lparr>lastRequestTime := clock w'\<rparr>, w'))"


section \<open>Code-block extraction (index.ts, lines 52--69)\<close>

text \<open>
  The regular expression \<open>/```[\w]*\n([\s\S]*?)```/g\<close>, part by part.  \<open>\w\<close> is
  \<open>[A-Za-z0-9_]\<close>.  The greedy \<open>[\w]*\<close> takes the longest run of word characters; a
  shorter run would leave a word character where \<open>\n\<close> is required, so backtracking
  into it never helps.  The lazy group \<open>([\s\S]*?)\<close> followed by the closing fence takes
  the shortest text up to the next fence.
\<close>

definition fence :: string where
  "fence = ''```''"

definition is_word :: "char \<Rightarrow> bool" where
  "is_word c \<longleftrightarrow>
     c \<in> set (''abcdefghijklmnopqrstuvwxyz'' @ ''ABCDEFGHIJKLMNOPQRSTUVWXYZ'' @ ''0123456789_'')"

text \<open>The literal \<open>```\<close> matches at the head of a text.\<close>

definition at_fence :: "string \<Rightarrow> bool" where
  "at_fence s \<longleftrightarrow> take 3 s = fence"

text \<open>
  The shortest prefix of a text that is followed by a fence, with what follows that
  fence; \<^const>\<open>None\<close> when the text has no fence.
\<close>

fun upto_fence :: "string \<Rightarrow> (string \<times> string) option" where
  "upto_fence [] = None"
| "upto_fence (c # cs) =
     (if at_fence (c # cs) then Some ([], drop 3 (c # cs))
      else (case upto_fence cs of None \<Rightarrow> None | Some (g, r) \<Rightarrow> Some (c # g, r)))"

text \<open>A match of the expression starting at the head of the text: group 1 and the rest.\<close>

definition match_at :: "string \<Rightarrow> (string \<times> string) option" where
  "match_at s =
     (if at_fence s
      then (case dropWhile is_word (drop 3 s) of
              [] \<Rightarrow> None
            | c # body \<Rightarrow> if c = CHR 0x0A then upto_fence body else None)
      else None)"

lemma upto_fence_Some: "upto_fence s = Some (g, r) \<Longrightarrow> s = g @ fence @ r"
proof (induction s arbitrary: g)
  case Nil
  then show ?case by simp
next
  case (Cons c cs)
  show ?case
  proof (cases "at_fence (c # cs)")
    case True
    with Cons.prems have "g = []" and "r = drop 3 (c # cs)" by simp_all
    with True show ?thesis
      unfolding at_fence_def by (metis append_Nil append_take_drop_id)
  next
    case False
    with Cons.prems obtain g' where "upto_fence cs = Some (g', r)" and "g = c # g'"
      by (auto split: option.splits)
    with Cons.IH show ?thesis by simp
  qed
qed

lemma match_at_shorter: "match_at s = Some (g, r) \<Longrightarrow> length r < length s"
proof -
  assume m: "match_at s = Some (g, r)"
  then obtain c body where d: "dropWhile is_word (drop 3 s) = c # body"
    and u: "upto_fence body = Some (g, r)"
    by (auto simp: match_at_def split: if_splits list.splits)
  from u have "length r < length (c # body)"
    by (auto dest: upto_fence_Some)
  also have "\<dots> \<le> length (drop 3 s)"
    unfolding d [symmetric] by (rule length_dropWhile_le)
  finally show ?thesis by simp
qed

text \<open>
  \<open>content.matchAll(codeBlockRegex)\<close>: the matches from left to right, each search
  starting where the last match ended (a match is never empty), as the list of their
  groups 1.
\<close>

function matchAll :: "string \<Rightarrow> string list" where
  "matchAll s =
     (case match_at s of
        Some (g, r) \<Rightarrow> g # matchAll r
      | None \<Rightarrow> (case s of [] \<Rightarrow> [] | _ # cs \<Rightarrow> matchAll cs))"
  by pat_completeness auto
termination
  by (relation "measure length") (auto dest: match_at_shorter)

declare matchAll.simps [simp del]

definition formatResponse :: "CompletionResponse \<Rightarrow> js_error + string" where
  "formatResponse completion =
     (case choices completion of
        [] \<Rightarrow> Inl (Error ''Invalid completion response'')
      | c # _ \<Rightarrow>
          (let content = content (message c);
               matches = matchAll content
           in if length matches > 0 then Inr (join ''\<newline>\<newline>'' (map trim matches))
              else Inr content))"


section \<open>Notions of the specification\<close>

text \<open>
  The glossary's fenced code block, read off a text: ``a run of text delimited by
  triple-backtick markers, optionally tagged with a language name immediately after
  the opening marker''.  Markers are paired from left to right; the tag is the run of
  non-blank characters right after the opening marker, the inner content is what
  follows the tag; an opening marker that is never closed delimits nothing.
\<close>

function spec_fenced_blocks :: "string \<Rightarrow> (string \<times> string) list" where
  "spec_fenced_blocks s =
     (case upto_fence s of
        None \<Rightarrow> []
      | Some (_, opened) \<Rightarrow>
          (case upto_fence opened of
             None \<Rightarrow> []
           | Some (body, rest) \<Rightarrow>
               (takeWhile (\<lambda>c. \<not> is_space c) body, dropWhile (\<lambda>c. \<not> is_space c) body)
                 # spec_fenced_blocks rest))"
  by pat_completeness auto
termination
  by (relation "measure length") (auto dest!: upto_fence_Some simp: fence_def)

declare spec_fenced_blocks.simps [simp del]

text \<open>
  The extractor as section 4.3 words it: the inner contents of the fenced blocks, each
  trimmed, joined by a blank line; the text itself when it has no fenced block.
\<close>

definition spec_extract :: "string \<Rightarrow> string" where
  "spec_extract text =
     (let blocks = spec_fenced_blocks text
      in if blocks = [] then text else join ''\<newline>\<newline>'' (map (\<lambda>b. trim (snd b)) blocks))"

text \<open>
  A text that holds no fence and does not end in a backtick: a fence put after it is
  the first fence of the whole.
\<close>

definition fence_free :: "string \<Rightarrow> bool" where
  "fence_free s \<longleftrightarrow> upto_fence (s @ ''``'') = None"

text \<open>
  The schema read as a predicate on the body: every required field is present and
  every field has its declared type (``missing required field, wrong type'' is its
  negation).
\<close>

definition is_string :: "json option \<Rightarrow> bool" where
  "is_string v = (case v of Some (JStr _) \<Rightarrow> True | _ \<Rightarrow> False)"

definition is_number :: "json option \<Rightarrow> bool" where
  "is_number v = (case v of Some (JNum _) \<Rightarrow> True | _ \<Rightarrow> False)"

definition valid_message :: "json \<Rightarrow> bool" where
  "valid_message v \<longleftrightarrow> is_string (field v ''role'') \<and> is_string (field v ''content'')"

definition valid_choice :: "json \<Rightarrow> bool" where
  "valid_choice v \<longleftrightarrow>
     is_number (field v ''index'')
     \<and> (case field v ''message'' of None \<Rightarrow> False | Some m \<Rightarrow> valid_message m)
     \<and> (case field v ''finish_reason'' of None \<Rightarrow> True | Some f \<Rightarrow> is_string (Some f))"

definition valid_usage :: "json \<Rightarrow> bool" where
  "valid_usage v \<longleftrightarrow>
     is_number (field v ''prompt_tokens'')
     \<and> is_number (field v ''completion_tokens'')
     \<and> is_number (field v ''total_tokens'')"

definition structurally_valid :: "json \<Rightarrow> bool" where
  "structurally_valid d \<longleftrightarrow>
     is_string (field d ''id'')
     \<and> is_string (field d ''object'')
     \<and> is_number (field d ''created'')
     \<and> is_string (field d ''model'')
     \<and> (case field d ''choices'' of Some (JArr xs) \<Rightarrow> list_all valid_choice xs | _ \<Rightarrow> False)
     \<and> (case field d ''usage'' of None \<Rightarrow> False | Some u \<Rightarrow> valid_usage u)"


text \<open>A failed parse reports at least one issue.\<close>

definition well_reported :: "'a parse_result \<Rightarrow> bool" where
  "well_reported r = (case r of Inl is \<Rightarrow> is \<noteq> [] | Inr _ \<Rightarrow> True)"


section \<open>Concrete inputs\<close>

text \<open>The client \<open>new MistralAPI('key')\<close> builds, an idle world, and two services.\<close>

definition example_client :: MistralAPI where
  "example_client =
     \<lparr>apiKey = ''key'',
      client = \<lparr>baseURL = ''https://api.mistral.ai/v1'',
                 headers = [(''Authorization'', ''Bearer key''),
                            (''Content-Type'', ''application/json''),
                            (''Accept'', ''application/json'')],
                 timeout = 30000\<rparr>,
      lastRequestTime = 0,
      minRequestInterval = 100\<rparr>"

definition no_options :: chat_options where
  "no_options = \<lparr>temperature = None, top_p = None, max_tokens = None, stop = None, model = None\<rparr>"

definition service_replying :: "json \<Rightarrow> nat \<Rightarrow> service" where
  "service_replying d ms = (\<lambda>req. (Resolved d, ms))"

definition service_failing :: "AxiosError \<Rightarrow> nat \<Rightarrow> service" where
  "service_failing e ms = (\<lambda>req. (Rejected_AxiosError e, ms))"

text \<open>A well-formed response body with the given choices.\<close>

definition body_with_choices :: "json list \<Rightarrow> json" where
  "body_with_choices cs =
     JObj [(''id'', JStr ''cmpl-1''),
           (''object'', JStr ''chat.completion''),
           (''created'', JNum 1700000000),
           (''model'', JStr ''codestral-latest''),
           (''choices'', JArr cs),
           (''usage'', JObj [(''prompt_tokens'', JNum 12),
                             (''completion_tokens'', JNum 0),
                             (''total_tokens'', JNum 12)])]"

text \<open>A validated response whose only choice says \<open>s\<close>.\<close>

definition completion_saying :: "string \<Rightarrow> CompletionResponse" where
  "completion_saying s =
     \<lparr>id_str = ''cmpl-1'', object = ''chat.completion'', created = 1700000000,
      model_str = ''codestral-latest'',
      choices = [\<lparr>index = 0, message = \<lparr>role = ''assistant'', content = s\<rparr>,
                 finish_reason = Some ''stop''\<rparr>],
      usage = \<lparr>prompt_tokens = 12, completion_tokens = 3, total_tokens = 15\<rparr>\<rparr>"


section \<open>The prompt builder returns a system message and a user message\<close>




section \<open>Client construction\<close>

lemma dropWhile_all: "(\<forall>x \<in> set (dropWhile P xs). P x) \<longleftrightarrow> (\<forall>x \<in> set xs. P x)"
  by (induction xs) auto

lemma trim_empty_iff: "trim s = [] \<longleftrightarrow> (\<forall>c \<in> set s. is_space c)"
  by (simp add: trim_def dropWhile_eq_Nil_conv dropWhile_all)

lemma constructor_fails_iff:
  "(MistralAPI_constructor k = Inl (Error ''API key cannot be empty'')) = (k = [] \<or> trim k = [])"
  by (simp add: MistralAPI_constructor_def)

lemma constructor_fails_blank:
  "(\<exists>e. MistralAPI_constructor k = Inl e) = (\<forall>c \<in> set k. is_space c)"
  unfolding trim_empty_iff [symmetric] by (auto simp add: MistralAPI_constructor_def trim_def)

lemma constructor_success:
  "k \<noteq> [] \<and> trim k \<noteq> [] \<longrightarrow>
     (\<exists>this. MistralAPI_constructor k = Inr this
        \<and> apiKey this = trim k
        \<and> apiKey this \<noteq> []
        \<and> map_of (headers (client this)) ''Authorization'' = Some (''Bearer '' @ trim k)
        \<and> timeout (client this) = 30000)"
  by (simp add: MistralAPI_constructor_def)

lemma trim_blank_example: "trim ''   '' = []"
  by (simp add: trim_def is_space_def)

lemma trim_key_example: "trim ''  key '' = ''key''"
  by (simp add: trim_def is_space_def)

text \<open>
  Claim C8.  Construction fails, with the error \<open>API key cannot be empty\<close>, exactly when
  the credential is empty or trims to the empty string, that is, when every character
  of it is white space; no other failure exists.  On success the stored credential is
  the trimmed input (so it is not empty), the \<open>Authorization\<close> header of the transport
  is \<open>Bearer\<close> followed by it, and the timeout is 30000 ms.
\<close>

theorem MistralAPI_constructor_contract:
  "(MistralAPI_constructor k = Inl (Error ''API key cannot be empty'')) = (k = [] \<or> trim k = [])
   \<and> ((\<exists>e. MistralAPI_constructor k = Inl e) = (\<forall>c \<in> set k. is_space c))
   \<and> (k \<noteq> [] \<and> trim k \<noteq> [] \<longrightarrow>
        (\<exists>this. MistralAPI_constructor k = Inr this
           \<and> apiKey this = trim k
           \<and> apiKey this \<noteq> []
           \<and> map_of (headers (client this)) ''Authorization'' = Some (''Bearer '' @ trim k)
           \<and> timeout (client this) = 30000))"
  using constructor_fails_iff constructor_fails_blank constructor_success by blast

theorem MistralAPI_constructor_contract_witness:
  "MistralAPI_constructor ''   '' = Inl (Error ''API key cannot be empty'')
   \<and> MistralAPI_constructor [] = Inl (Error ''API key cannot be empty'')
   \<and> MistralAPI_constructor ''  key '' = Inr example_client"
  using MistralAPI_constructor_contract [of "''   ''"] MistralAPI_constructor_contract [of "[]"]
    MistralAPI_constructor_contract [of "''  key ''"]
  by (simp add: MistralAPI_constructor_def MISTRAL_API_BASE_def example_client_def
      trim_blank_example trim_key_example)


section \<open>The singleton accessor\<close>

lemma getMistralAPI_existing: "instance_var p = Some r \<Longrightarrow> getMistralAPI k p = (Inr r, p)"
  by (simp add: getMistralAPI_def)

lemma getMistralAPI_seq_existing:
  "instance_var p = Some r \<Longrightarrow> getMistralAPI_seq ks p = (replicate (length ks) (Inr r), p)"
  by (induction ks) (simp_all add: getMistralAPI_existing)

lemma getMistralAPI_created:
  "getMistralAPI k p = (Inr r, p') \<Longrightarrow> instance_var p' = Some r"
  by (auto simp: getMistralAPI_def split: option.splits sum.splits)

text \<open>
  Claim C10.  Once the module variable holds an instance \<open>r\<close>, a call of the accessor
  with any credential \<open>k\<close> (a different one, an empty one) returns the reference \<open>r\<close>
  and leaves the process as it is: nothing is constructed, nothing is thrown; so does
  every call of any sequence of calls.  And the variable holds an instance after every
  call that returned one.
\<close>

theorem getMistralAPI_singleton:
  "(instance_var p = Some r \<longrightarrow>
      getMistralAPI k p = (Inr r, p)
      \<and> getMistralAPI_seq ks p = (replicate (length ks) (Inr r), p))
   \<and> (getMistralAPI k0 p0 = (Inr r, p) \<longrightarrow> instance_var p = Some r)"
  using getMistralAPI_existing getMistralAPI_seq_existing getMistralAPI_created by blast

theorem getMistralAPI_singleton_witness:
  "(let p1 = snd (getMistralAPI ''key'' \<lparr>store = [], instance_var = None\<rparr>)
    in instance_var p1 = Some 0
       \<and> store p1 = [example_client]
       \<and> getMistralAPI [] p1 = (Inr 0, p1)
       \<and> getMistralAPI ''another key'' p1 = (Inr 0, p1)
       \<and> getMistralAPI_seq [''another key'', [], ''   ''] p1 = ([Inr 0, Inr 0, Inr 0], p1))"
  using getMistralAPI_singleton
    [of "snd (getMistralAPI ''key'' \<lparr>store = [], instance_var = None\<rparr>)" 0 "[]"
        "[''another key'', [], ''   '']" "''key''" "\<lparr>store = [], instance_var = None\<rparr>"]
    getMistralAPI_singleton
    [of "snd (getMistralAPI ''key'' \<lparr>store = [], instance_var = None\<rparr>)" 0 "''another key''"
        "[]" "''key''" "\<lparr>store = [], instance_var = None\<rparr>"]
  by (simp add: getMistralAPI_def MistralAPI_constructor_def MISTRAL_API_BASE_def
      example_client_def trim_def is_space_def Let_def)


section \<open>The fill-in-the-middle payload\<close>

lemma fimCompletion_sent:
  "sent (snd (snd (fimCompletion zm svc this prompt options w))) =
     sent w @ [(clock w, \<lparr>config = client this, url = ''/fim/completions'',
                          payload = fim_payload prompt options\<rparr>)]"
  by (simp add: fimCompletion_def post_def Let_def split: prod.splits)

lemma fim_payload_model:
  "field (fim_payload prompt options) ''model'' = Some (JStr ''codestral-latest'')"
  by (simp add: fim_payload_def field_def MISTRAL_MODELS_def)

lemma fim_payload_temperature:
  "field (fim_payload prompt options) ''temperature'' = Some (JNum (nullish (temperature options) 0))"
  by (simp add: fim_payload_def field_def opt_field_def split: option.splits)

text \<open>
  Claim C4.  Every call of \<open>fimCompletion\<close> issues one request, to \<open>/fim/completions\<close>,
  whose payload names the model \<open>codestral-latest\<close>, the primary identifier and not the
  mamba one, for every options object, whatever further properties (a \<open>model\<close>, say)
  the caller put into it; its temperature is 0 when the options give none, and the
  given one otherwise.
\<close>

theorem fimCompletion_primary_model:
  "sent (snd (snd (fimCompletion zm svc this prompt options w))) =
     sent w @ [(clock w, \<lparr>config = client this, url = ''/fim/completions'',
                          payload = fim_payload prompt options\<rparr>)]
   \<and> field (fim_payload prompt options) ''model'' = Some (JStr (MISTRAL_MODELS CODESTRAL))
   \<and> MISTRAL_MODELS CODESTRAL = ''codestral-latest''
   \<and> MISTRAL_MODELS CODESTRAL \<noteq> MISTRAL_MODELS CODESTRAL_MAMBA
   \<and> (temperature options = None \<longrightarrow>
        field (fim_payload prompt options) ''temperature'' = Some (JNum 0))
   \<and> (\<forall>t. temperature options = Some t \<longrightarrow>
        field (fim_payload prompt options) ''temperature'' = Some (JNum t))"
  using fimCompletion_sent [of zm svc this prompt options w]
    fim_payload_model [of prompt options] fim_payload_temperature [of prompt options]
  by (simp add: MISTRAL_MODELS_def nullish_def)

theorem fimCompletion_primary_model_witness:
  "map (\<lambda>x. field (payload (snd x)) ''model'')
     (sent (snd (snd (fimCompletion (\<lambda>is. ''invalid'') (service_replying (body_with_choices []) 40)
        example_client ''def f(''
        \<lparr>temperature = None, top_p = None, max_tokens = None, stop = None,
         suffix = Some '')'', \<dots> = Some CODESTRAL_MAMBA\<rparr>
        \<lparr>clock = 1000, sent = []\<rparr>))))
     = [Some (JStr ''codestral-latest'')]
   \<and> field (fim_payload ''def f(''
        \<lparr>temperature = None, top_p = None, max_tokens = None, stop = None,
         suffix = Some '')'', \<dots> = Some CODESTRAL_MAMBA\<rparr>) ''temperature''
     = Some (JNum 0)
   \<and> field (fim_payload ''def f(''
        \<lparr>temperature = Some 0.3, top_p = None, max_tokens = None, stop = None,
         suffix = None\<rparr>) ''temperature''
     = Some (JNum 0.3)"
  using fimCompletion_primary_model [of "\<lambda>is. ''invalid''"
      "service_replying (body_with_choices []) 40" example_client "''def f(''"
      "\<lparr>temperature = None, top_p = None, max_tokens = None, stop = None,
        suffix = Some '')'', \<dots> = Some CODESTRAL_MAMBA\<rparr>" "\<lparr>clock = 1000, sent = []\<rparr>"]
    fimCompletion_primary_model [of "\<lambda>is. ''invalid''"
      "service_replying (body_with_choices []) 40" example_client "''def f(''"
      "\<lparr>temperature = Some 0.3, top_p = None, max_tokens = None, stop = None,
        suffix = None\<rparr>" "\<lparr>clock = 1000, sent = []\<rparr>"]
  by (simp add: MISTRAL_MODELS_def)


section \<open>Classification of transport failures\<close>


lemma chatCompletion_rejected:
  "fst (svc \<lparr>config = client this, url = ''/chat/completions'',
             payload = chat_payload messages options\<rparr>) = Rejected_AxiosError e
   \<Longrightarrow> fst (chatCompletion svc this messages options w) = Inl (chat_api_error e)"
  by (simp add: chatCompletion_def post_def Let_def)

lemma fimCompletion_rejected:
  "fst (svc \<lparr>config = client this, url = ''/fim/completions'',
             payload = fim_payload prompt options\<rparr>) = Rejected_AxiosError e
   \<Longrightarrow> fst (fimCompletion zm svc this prompt options w) = Inl (fim_api_error e)"
  by (simp add: fimCompletion_def post_def Let_def)

lemma error_message_cases:
  "error_message e =
     (case response e of
        None \<Rightarrow> axios_message e
      | Some r \<Rightarrow>
          (case data_error_message r of
             None \<Rightarrow> axios_message e
           | Some m \<Rightarrow> if m \<noteq> [] then m else axios_message e))"
  by (simp add: error_message_def truthy_def Let_def split: option.splits)

text \<open>
  Claim C2, as the code has it.  When the transport rejects a call of \<open>chatCompletion\<close>
  or \<open>fimCompletion\<close> with an \<open>AxiosError\<close>, the error thrown is chosen by the HTTP
  status: 401 gives the authentication error, 429 the rate-limit error, 500 (and no
  other status) the server error; every other status, an absent one and the other 5xx
  ones included, gives \<open>Mistral API error (status): message\<close>, where the message is the
  remote one if it is present and not empty and the transport's own otherwise;
  \<open>fimCompletion\<close> appends the response body to it.
\<close>

theorem transport_failure_classification:
  assumes "fst (svc \<lparr>config = client this, url = ''/chat/completions'',
                     payload = chat_payload messages options\<rparr>) = Rejected_AxiosError e"
    and "fst (svc \<lparr>config = client this, url = ''/fim/completions'',
                   payload = fim_payload prompt foptions\<rparr>) = Rejected_AxiosError e"
  shows
    "(let st = map_option status (response e);
          chat = fst (chatCompletion svc this messages options w);
          fim = fst (fimCompletion zm svc this prompt foptions w)
      in (st = Some 401 \<longrightarrow>
            chat = Inl (Error ''Authentication failed. Please check your API key.'')
            \<and> fim = Inl (Error ''Authentication failed. Please check your API key.''))
         \<and> (st = Some 429 \<longrightarrow>
            chat = Inl (Error ''Rate limit exceeded. Please try again later.'')
            \<and> fim = Inl (Error ''Rate limit exceeded. Please try again later.''))
         \<and> (st = Some 500 \<longrightarrow>
            chat = Inl (Error ''Mistral API server error. Please try again later.'')
            \<and> fim = Inl (Error ''Mistral API server error. Please try again later.''))
         \<and> (st \<noteq> Some 401 \<and> st \<noteq> Some 429 \<and> st \<noteq> Some 500 \<longrightarrow>
            chat = Inl (Error (''Mistral API error ('' @ template_status st @ ''): ''
                               @ error_message e))
            \<and> fim = Inl (Error (''Mistral API error ('' @ template_status st @ ''): ''
                               @ error_message e @ ''\<newline>Response: ''
                               @ (case response e of None \<Rightarrow> ''undefined''
                                  | Some r \<Rightarrow> data_stringified r))))
         \<and> error_message e =
             (case response e of
                None \<Rightarrow> axios_message e
              | Some r \<Rightarrow>
                  (case data_error_message r of
                     None \<Rightarrow> axios_message e
                   | Some m \<Rightarrow> if m \<noteq> [] then m else axios_message e)))"
proof -
  from assms(1) have c: "fst (chatCompletion svc this messages options w) = Inl (chat_api_error e)"
    by (rule chatCompletion_rejected)
  from assms(2) have f: "fst (fimCompletion zm svc this prompt foptions w) = Inl (fim_api_error e)"
    by (rule fimCompletion_rejected)
  show ?thesis
    unfolding c f error_message_cases [symmetric]
    by (simp add: chat_api_error_def fim_api_error_def Let_def del: map_option_eq_Some)
qed

lemma toString_404: "toString_nat 404 = ''404''"
  by code_simp

lemma toString_503: "toString_nat 503 = ''503''"
  by code_simp

theorem transport_failure_classification_witness:
  "fst (chatCompletion
     (service_failing \<lparr>response = Some \<lparr>status = 404, data_error_message = Some ''No such model'',
                                        data_stringified = ''(body)''\<rparr>,
                       axios_message = ''Request failed with status code 404''\<rparr> 20)
     example_client [] no_options \<lparr>clock = 1000, sent = []\<rparr>)
   = Inl (Error ''Mistral API error (404): No such model'')
   \<and> fst (fimCompletion (\<lambda>is. ''invalid'')
     (service_failing \<lparr>response = Some \<lparr>status = 404, data_error_message = Some ''No such model'',
                                        data_stringified = ''(body)''\<rparr>,
                       axios_message = ''Request failed with status code 404''\<rparr> 20)
     example_client ''def f(''
     \<lparr>temperature = None, top_p = None, max_tokens = None, stop = None, suffix = None\<rparr>
     \<lparr>clock = 1000, sent = []\<rparr>)
   = Inl (Error ''Mistral API error (404): No such model\<newline>Response: (body)'')"
  using transport_failure_classification
    [of "service_failing \<lparr>response = Some \<lparr>status = 404, data_error_message = Some ''No such model'',
                                          data_stringified = ''(body)''\<rparr>,
                         axios_message = ''Request failed with status code 404''\<rparr> 20"
        example_client "[]" no_options
        "\<lparr>response = Some \<lparr>status = 404, data_error_message = Some ''No such model'',
                           data_stringified = ''(body)''\<rparr>,
          axios_message = ''Request failed with status code 404''\<rparr>"
        "''def f(''"
        "\<lparr>temperature = None, top_p = None, max_tokens = None, stop = None, suffix = None\<rparr>"
        "\<lparr>clock = 1000, sent = []\<rparr>" "\<lambda>is. ''invalid''"]
  by (simp add: service_failing_def Let_def template_status_def toString_404 error_message_def
      truthy_def)

text \<open>
  The claim as written says every 5xx status gives the server error; at 503 the call
  fails with the unclassified error instead.
\<close>

theorem server_error_503_counterexample:
  "fst (chatCompletion
     (service_failing \<lparr>response = Some \<lparr>status = 503, data_error_message = None,
                                        data_stringified = ''{}''\<rparr>,
                       axios_message = ''Request failed with status code 503''\<rparr> 20)
     example_client [] no_options \<lparr>clock = 1000, sent = []\<rparr>)
   = Inl (Error ''Mistral API error (503): Request failed with status code 503'')
   \<and> Error ''Mistral API error (503): Request failed with status code 503''
     \<noteq> Error ''Mistral API server error. Please try again later.''"
  by (simp add: chatCompletion_def post_def Let_def service_failing_def chat_api_error_def
      error_message_def truthy_def template_status_def toString_503)


section \<open>Schema validation\<close>



subsection \<open>A failed parse reports an issue\<close>

lemma wr_Inr [simp]: "well_reported (Inr v)"
  by (simp add: well_reported_def)

lemma wr_invalid_type [simp]: "well_reported (invalid_type p e v)"
  by (simp add: well_reported_def invalid_type_def)

lemma wr_zap: "well_reported f \<Longrightarrow> well_reported x \<Longrightarrow> well_reported (zap f x)"
  by (auto simp: well_reported_def zap_def issues_of_def split: sum.splits)

lemma wr_z_string [simp]: "well_reported (z_string p v)"
  by (simp add: z_string_def split: option.splits json.splits)

lemma wr_z_number [simp]: "well_reported (z_number p v)"
  by (simp add: z_number_def split: option.splits json.splits)

lemma wr_z_optional: "(\<And>p v. well_reported (s p v)) \<Longrightarrow> well_reported (z_optional s p v)"
  by (simp add: z_optional_def wr_zap split: option.splits)

lemma wr_z_elements: "(\<And>p v. well_reported (s p v)) \<Longrightarrow> well_reported (z_elements s p i xs)"
  by (induction xs arbitrary: i) (simp_all add: wr_zap)

lemma wr_z_array: "(\<And>p v. well_reported (s p v)) \<Longrightarrow> well_reported (z_array s p v)"
  by (simp add: z_array_def wr_z_elements split: option.splits json.splits)

lemma wr_message_schema [simp]: "well_reported (message_schema p v)"
  by (simp add: message_schema_def wr_zap split: option.splits json.splits)

lemma wr_choice_schema [simp]: "well_reported (choice_schema p v)"
  by (simp add: choice_schema_def wr_zap wr_z_optional split: option.splits json.splits)

lemma wr_usage_schema [simp]: "well_reported (usage_schema p v)"
  by (simp add: usage_schema_def wr_zap split: option.splits json.splits)

lemma wr_CompletionResponseSchema: "well_reported (CompletionResponseSchema d)"
  by (simp add: CompletionResponseSchema_def wr_zap wr_z_array split: json.splits)

subsection \<open>A parse succeeds exactly on a valid value\<close>

lemma isl_zap [simp]: "isl (zap f x) \<longleftrightarrow> isl f \<or> isl x"
  by (simp add: zap_def split: sum.splits)

lemma isl_invalid_type [simp]: "isl (invalid_type p e v)"
  by (simp add: invalid_type_def)

lemma isl_z_string [simp]: "isl (z_string p v) \<longleftrightarrow> \<not> is_string v"
  by (simp add: z_string_def is_string_def split: option.splits json.splits)

lemma isl_z_number [simp]: "isl (z_number p v) \<longleftrightarrow> \<not> is_number v"
  by (simp add: z_number_def is_number_def split: option.splits json.splits)

lemma isl_z_elements:
  "(\<And>p x. isl (s p (Some x)) \<longleftrightarrow> \<not> P x) \<Longrightarrow> isl (z_elements s p i xs) \<longleftrightarrow> \<not> list_all P xs"
  by (induction xs arbitrary: i) simp_all

lemma isl_message_schema [simp]: "isl (message_schema p (Some m)) \<longleftrightarrow> \<not> valid_message m"
  by (cases m) (auto simp: message_schema_def valid_message_def field_def is_string_def)

lemma isl_message_schema_None [simp]: "isl (message_schema p None)"
  by (simp add: message_schema_def)

lemma isl_choice_schema [simp]: "isl (choice_schema p (Some x)) \<longleftrightarrow> \<not> valid_choice x"
  by (cases x)
    (auto simp: choice_schema_def valid_choice_def field_def is_number_def z_optional_def
      split: option.splits)

lemma isl_usage_schema [simp]: "isl (usage_schema p (Some u)) \<longleftrightarrow> \<not> valid_usage u"
  by (cases u) (auto simp: usage_schema_def valid_usage_def field_def is_number_def)

lemma isl_usage_schema_None [simp]: "isl (usage_schema p None)"
  by (simp add: usage_schema_def)

lemma isl_choices [simp]:
  "isl (z_array choice_schema p v) \<longleftrightarrow>
     \<not> (case v of Some (JArr xs) \<Rightarrow> list_all valid_choice xs | _ \<Rightarrow> False)"
  by (simp add: z_array_def isl_z_elements [where P = valid_choice]
      split: option.splits json.splits)

lemma isl_CompletionResponseSchema:
  "isl (CompletionResponseSchema d) \<longleftrightarrow> \<not> structurally_valid d"
proof (cases d)
  case (JObj kvs)
  then show ?thesis
    by (cases "map_of kvs ''usage''")
      (auto simp: CompletionResponseSchema_def structurally_valid_def field_def)
qed (simp_all add: CompletionResponseSchema_def structurally_valid_def field_def is_string_def)


subsection \<open>What a successful parse read\<close>

lemma zap_Inr_iff: "zap f x = Inr y \<longleftrightarrow> (\<exists>g v. f = Inr g \<and> x = Inr v \<and> y = g v)"
  by (auto simp: zap_def split: sum.splits)

lemma z_string_Inr_iff: "z_string p v = Inr s \<longleftrightarrow> v = Some (JStr s)"
  by (auto simp: z_string_def invalid_type_def split: option.splits json.splits)

lemma z_number_Inr_iff: "z_number p v = Inr n \<longleftrightarrow> v = Some (JNum n)"
  by (auto simp: z_number_def invalid_type_def split: option.splits json.splits)

lemma z_elements_length: "z_elements s p i xs = Inr ys \<Longrightarrow> length ys = length xs"
  by (induction xs arbitrary: i ys) (auto simp: zap_Inr_iff)

lemma z_array_Inr:
  "z_array s p v = Inr ys \<Longrightarrow> \<exists>xs. v = Some (JArr xs) \<and> length ys = length xs"
  by (auto simp: z_array_def invalid_type_def dest: z_elements_length
      split: option.splits json.splits)

lemma usage_schema_Inr:
  "usage_schema p v = Inr u \<Longrightarrow>
     \<exists>j. v = Some j
       \<and> field j ''prompt_tokens'' = Some (JNum (prompt_tokens u))
       \<and> field j ''completion_tokens'' = Some (JNum (completion_tokens u))
       \<and> field j ''total_tokens'' = Some (JNum (total_tokens u))"
  by (auto simp: usage_schema_def invalid_type_def field_def zap_Inr_iff z_number_Inr_iff
      split: option.splits json.splits)

lemma CompletionResponseSchema_Inr:
  assumes "CompletionResponseSchema d = Inr v"
  shows "field d ''id'' = Some (JStr (id_str v))
    \<and> field d ''object'' = Some (JStr (object v))
    \<and> field d ''created'' = Some (JNum (created v))
    \<and> field d ''model'' = Some (JStr (model_str v))
    \<and> (\<exists>xs. field d ''choices'' = Some (JArr xs) \<and> length (choices v) = length xs)
    \<and> (\<exists>j. field d ''usage'' = Some j
          \<and> field j ''prompt_tokens'' = Some (JNum (prompt_tokens (usage v)))
          \<and> field j ''completion_tokens'' = Some (JNum (completion_tokens (usage v)))
          \<and> field j ''total_tokens'' = Some (JNum (total_tokens (usage v))))"
proof (cases d)
  case (JObj kvs)
  with assms obtain i ob c m ch u where
    "z_string [Key ''id''] (map_of kvs ''id'') = Inr i"
    "z_string [Key ''object''] (map_of kvs ''object'') = Inr ob"
    "z_number [Key ''created''] (map_of kvs ''created'') = Inr c"
    "z_string [Key ''model''] (map_of kvs ''model'') = Inr m"
    "z_array choice_schema [Key ''choices''] (map_of kvs ''choices'') = Inr ch"
    "usage_schema [Key ''usage''] (map_of kvs ''usage'') = Inr u"
    and v: "v = \<lparr>id_str = i, object = ob, created = c, model_str = m, choices = ch, usage = u\<rparr>"
    by (auto simp: CompletionResponseSchema_def zap_Inr_iff)
  then show ?thesis
    using JObj
    by (auto simp: field_def z_string_Inr_iff z_number_Inr_iff
        dest!: z_array_Inr usage_schema_Inr)
next
qed (use assms in \<open>simp_all add: CompletionResponseSchema_def invalid_type_def\<close>)

lemma parse_cases:
  "parse d = (if structurally_valid d then Inr (projr (CompletionResponseSchema d))
              else Inl (ZodError (projl (CompletionResponseSchema d))))"
  using isl_CompletionResponseSchema [of d]
  by (cases "CompletionResponseSchema d") (auto simp: parse_def)

lemma chatCompletion_resolved:
  "fst (svc \<lparr>config = client this, url = ''/chat/completions'',
             payload = chat_payload messages options\<rparr>) = Resolved d
   \<Longrightarrow> fst (chatCompletion svc this messages options w) = parse d"
  by (simp add: chatCompletion_def post_def Let_def)

lemma fimCompletion_resolved:
  "fst (svc \<lparr>config = client this, url = ''/fim/completions'',
             payload = fim_payload prompt options\<rparr>) = Resolved d
   \<Longrightarrow> fst (fimCompletion zm svc this prompt options w) =
       (case parse d of
          Inl err \<Rightarrow> Inl (Error (''Unexpected error during FIM completion: '' @ message_of zm err))
        | Inr v \<Rightarrow> Inr v)"
  by (simp add: fimCompletion_def post_def Let_def split: sum.splits)

text \<open>
  Claim C9.  When the transport fulfils a call of \<open>chatCompletion\<close> with a body that is
  not structurally valid (a required field missing, \<open>usage\<close> for one, or a field of the
  wrong type), the call throws a \<open>ZodError\<close> that reports at least one issue.  When the
  call returns a value, the body was structurally valid, and the identifier, object,
  timestamp, model, usage counts and number of choices of the value are those of the
  body: a returned value is never filled in part.
\<close>

theorem chatCompletion_schema_error:
  assumes "fst (svc \<lparr>config = client this, url = ''/chat/completions'',
                     payload = chat_payload messages options\<rparr>) = Resolved d"
  shows "(\<not> structurally_valid d \<longrightarrow>
            (\<exists>is. is \<noteq> [] \<and> fst (chatCompletion svc this messages options w) = Inl (ZodError is)))
    \<and> (field d ''usage'' = None \<longrightarrow> \<not> structurally_valid d)
    \<and> (\<forall>v. fst (chatCompletion svc this messages options w) = Inr v \<longrightarrow>
          structurally_valid d
          \<and> field d ''id'' = Some (JStr (id_str v))
          \<and> field d ''object'' = Some (JStr (object v))
          \<and> field d ''created'' = Some (JNum (created v))
          \<and> field d ''model'' = Some (JStr (model_str v))
          \<and> (\<exists>xs. field d ''choices'' = Some (JArr xs) \<and> length (choices v) = length xs)
          \<and> (\<exists>j. field d ''usage'' = Some j
                \<and> field j ''prompt_tokens'' = Some (JNum (prompt_tokens (usage v)))
                \<and> field j ''completion_tokens'' = Some (JNum (completion_tokens (usage v)))
                \<and> field j ''total_tokens'' = Some (JNum (total_tokens (usage v)))))"
proof -
  from assms have c: "fst (chatCompletion svc this messages options w) = parse d"
    by (rule chatCompletion_resolved)
  have 1: "\<exists>is. is \<noteq> [] \<and> parse d = Inl (ZodError is)" if "\<not> structurally_valid d"
  proof -
    from that obtain iss where i: "CompletionResponseSchema d = Inl iss"
      using isl_CompletionResponseSchema [of d] by (cases "CompletionResponseSchema d") auto
    with wr_CompletionResponseSchema [of d] have "iss \<noteq> []"
      by (simp add: well_reported_def)
    with i show ?thesis by (simp add: parse_def)
  qed
  have 2: "\<not> structurally_valid d" if "field d ''usage'' = None"
    using that by (simp add: structurally_valid_def)
  have 3: "structurally_valid d \<and> CompletionResponseSchema d = Inr v" if "parse d = Inr v" for v
    using that isl_CompletionResponseSchema [of d]
    by (cases "CompletionResponseSchema d") (auto simp: parse_def)
  show ?thesis
    unfolding c using 1 2 3 CompletionResponseSchema_Inr by blast
qed


theorem chatCompletion_schema_error_witness:
  "fst (chatCompletion
     (service_replying
        (JObj [(''id'', JStr ''cmpl-1''),
               (''object'', JStr ''chat.completion''),
               (''created'', JNum 1700000000),
               (''model'', JNum 7),
               (''choices'', JArr [])]) 20)
     example_client [] no_options \<lparr>clock = 1000, sent = []\<rparr>)
   = Inl (ZodError [\<lparr>path = [Key ''model''], expected = T_string, received = T_number\<rparr>,
                    \<lparr>path = [Key ''usage''], expected = T_object, received = T_undefined\<rparr>])"
  using chatCompletion_schema_error
    [of "service_replying
        (JObj [(''id'', JStr ''cmpl-1''),
               (''object'', JStr ''chat.completion''),
               (''created'', JNum 1700000000),
               (''model'', JNum 7),
               (''choices'', JArr [])]) 20"
      example_client "[]" no_options
      "JObj [(''id'', JStr ''cmpl-1''),
               (''object'', JStr ''chat.completion''),
               (''created'', JNum 1700000000),
               (''model'', JNum 7),
               (''choices'', JArr [])]"
      "\<lparr>clock = 1000, sent = []\<rparr>"]
  by (simp add: service_replying_def chatCompletion_def post_def Let_def parse_def
      CompletionResponseSchema_def zap_def z_string_def z_number_def z_array_def usage_schema_def
      invalid_type_def getParsedType_def issues_of_def)

text \<open>
  Claim C3 as written says a body with zero choices does not validate; it validates,
  and \<open>chatCompletion\<close> returns a value whose choices are empty.
\<close>

theorem zero_choices_validate_counterexample:
  "fst (chatCompletion (service_replying (body_with_choices []) 20)
     example_client [] no_options \<lparr>clock = 1000, sent = []\<rparr>)
   = Inr \<lparr>id_str = ''cmpl-1'', object = ''chat.completion'', created = 1700000000,
          model_str = ''codestral-latest'', choices = [],
          usage = \<lparr>prompt_tokens = 12, completion_tokens = 0, total_tokens = 12\<rparr>\<rparr>"
  by (simp add: service_replying_def body_with_choices_def chatCompletion_def post_def Let_def
      parse_def CompletionResponseSchema_def zap_def z_string_def z_number_def z_array_def
      usage_schema_def)

lemma zero_choices_validate:
  "CompletionResponseSchema
     (JObj [(''id'', JStr i), (''object'', JStr ob), (''created'', JNum c), (''model'', JStr m),
            (''choices'', JArr []),
            (''usage'', JObj [(''prompt_tokens'', JNum a), (''completion_tokens'', JNum b),
                              (''total_tokens'', JNum t)])])
   = Inr \<lparr>id_str = i, object = ob, created = c, model_str = m, choices = [],
          usage = \<lparr>prompt_tokens = a, completion_tokens = b, total_tokens = t\<rparr>\<rparr>"
  by (simp add: CompletionResponseSchema_def zap_def z_string_def z_number_def z_array_def
      usage_schema_def)

lemma formatResponse_no_choices:
  "choices v = [] \<Longrightarrow> formatResponse v = Inl (Error ''Invalid completion response'')"
  by (simp add: formatResponse_def)

text \<open>
  Claim C3, as the code has it.  The schema accepts a choices array of any length, the
  empty one included: a validated value has as many choices as the body has, and
  \<open>chatCompletion\<close> and \<open>fimCompletion\<close> return the validated value as it is; a body
  with zero choices validates to a value with no choices.  Emptiness is refused
  later, by \<open>formatResponse\<close>, with the error \<open>Invalid completion response\<close>.
\<close>

theorem choices_may_be_empty:
  "(CompletionResponseSchema d = Inr v \<longrightarrow>
      (\<exists>xs. field d ''choices'' = Some (JArr xs) \<and> length (choices v) = length xs))
   \<and> (CompletionResponseSchema d = Inr v
       \<and> fst (svc \<lparr>config = client this, url = ''/chat/completions'',
                    payload = chat_payload messages options\<rparr>) = Resolved d \<longrightarrow>
       fst (chatCompletion svc this messages options w) = Inr v)
   \<and> (CompletionResponseSchema d = Inr v
       \<and> fst (svc \<lparr>config = client this, url = ''/fim/completions'',
                    payload = fim_payload prompt foptions\<rparr>) = Resolved d \<longrightarrow>
       fst (fimCompletion zm svc this prompt foptions w) = Inr v)
   \<and> CompletionResponseSchema
       (JObj [(''id'', JStr i), (''object'', JStr ob), (''created'', JNum c), (''model'', JStr m),
              (''choices'', JArr []),
              (''usage'', JObj [(''prompt_tokens'', JNum a), (''completion_tokens'', JNum b),
                                (''total_tokens'', JNum t)])])
     = Inr \<lparr>id_str = i, object = ob, created = c, model_str = m, choices = [],
            usage = \<lparr>prompt_tokens = a, completion_tokens = b, total_tokens = t\<rparr>\<rparr>
   \<and> (choices v = [] \<longrightarrow> formatResponse v = Inl (Error ''Invalid completion response''))"
proof -
  have 1: "\<exists>xs. field d ''choices'' = Some (JArr xs) \<and> length (choices v) = length xs"
    if "CompletionResponseSchema d = Inr v"
    using CompletionResponseSchema_Inr [OF that] by blast
  have 2: "fst (chatCompletion svc this messages options w) = Inr v"
    if "CompletionResponseSchema d = Inr v"
      and "fst (svc \<lparr>config = client this, url = ''/chat/completions'',
                      payload = chat_payload messages options\<rparr>) = Resolved d"
    using that by (simp add: chatCompletion_resolved parse_def)
  have 3: "fst (fimCompletion zm svc this prompt foptions w) = Inr v"
    if "CompletionResponseSchema d = Inr v"
      and "fst (svc \<lparr>config = client this, url = ''/fim/completions'',
                      payload = fim_payload prompt foptions\<rparr>) = Resolved d"
    using that by (simp add: fimCompletion_resolved parse_def)
  show ?thesis
    using 1 2 3 zero_choices_validate [of i ob c m a b t] formatResponse_no_choices [of v]
    by blast
qed

theorem choices_may_be_empty_witness:
  "fst (fimCompletion (\<lambda>is. ''invalid'') (service_replying (body_with_choices []) 20)
     example_client ''def f(''
     \<lparr>temperature = None, top_p = None, max_tokens = None, stop = None, suffix = None\<rparr>
     \<lparr>clock = 1000, sent = []\<rparr>)
   = Inr \<lparr>id_str = ''cmpl-1'', object = ''chat.completion'', created = 1700000000,
          model_str = ''codestral-latest'', choices = [],
          usage = \<lparr>prompt_tokens = 12, completion_tokens = 0, total_tokens = 12\<rparr>\<rparr>
   \<and> formatResponse
       \<lparr>id_str = ''cmpl-1'', object = ''chat.completion'', created = 1700000000,
        model_str = ''codestral-latest'', choices = [],
        usage = \<lparr>prompt_tokens = 12, completion_tokens = 0, total_tokens = 12\<rparr>\<rparr>
     = Inl (Error ''Invalid completion response'')"
  using choices_may_be_empty
    [where d = "body_with_choices []"
      and v = "\<lparr>id_str = ''cmpl-1'', object = ''chat.completion'', created = 1700000000,
        model_str = ''codestral-latest'', choices = [],
        usage = \<lparr>prompt_tokens = 12, completion_tokens = 0, total_tokens = 12\<rparr>\<rparr>"
      and svc = "service_replying (body_with_choices []) 20" and this = example_client
      and messages = "[]" and options = no_options and prompt = "''def f(''"
      and foptions = "\<lparr>temperature = None, top_p = None, max_tokens = None, stop = None,
        suffix = None\<rparr>"
      and w = "\<lparr>clock = 1000, sent = []\<rparr>" and zm = "\<lambda>is. ''invalid''"]
    zero_choices_validate [of "''cmpl-1''" "''chat.completion''" 1700000000 "''codestral-latest''" 12 0 12]
  by (simp add: service_replying_def body_with_choices_def)




section \<open>Pacing\<close>

lemma chatCompletion_effects:
  "snd (chatCompletion svc this messages options w) =
     (this,
      w\<lparr>sent := sent w @ [(clock w, \<lparr>config = client this, url = ''/chat/completions'',
                                       payload = chat_payload messages options\<rparr>)],
        clock := clock w
          + int (snd (svc \<lparr>config = client this, url = ''/chat/completions'',
                           payload = chat_payload messages options\<rparr>))\<rparr>)"
  by (simp add: chatCompletion_def post_def Let_def)

lemma fimCompletion_effects:
  "snd (fimCompletion zm svc this prompt options w) =
     (this,
      w\<lparr>sent := sent w @ [(clock w, \<lparr>config = client this, url = ''/fim/completions'',
                                       payload = fim_payload prompt options\<rparr>)],
        clock := clock w
          + int (snd (svc \<lparr>config = client this, url = ''/fim/completions'',
                           payload = fim_payload prompt options\<rparr>))\<rparr>)"
  by (simp add: fimCompletion_def post_def Let_def)

lemma enforceRateLimit_spacing:
  assumes "enforceRateLimit late this w = (this', w')"
  shows "lastRequestTime this + minRequestInterval this \<le> clock w'
    \<and> clock w \<le> clock w'
    \<and> lastRequestTime this' = clock w'
    \<and> sent w' = sent w"
  using assms by (auto simp: enforceRateLimit_def Let_def split: if_splits)

lemma chatCompletion_twice:
  "map fst (sent (snd (snd (chatCompletion svc this m2 o2
       (snd (snd (chatCompletion svc this m1 o1 w)))))))
   = map fst (sent w)
     @ [clock w,
        clock w + int (snd (svc \<lparr>config = client this, url = ''/chat/completions'',
                                  payload = chat_payload m1 o1\<rparr>))]"
  by (simp add: chatCompletion_effects)

text \<open>
  Claim C1: successive calls are paced, the second request being issued at least
  100 ms after the first and \<open>lastRequestTime\<close> updated.  The code has the mechanism,
  \<open>enforceRateLimit\<close>, which keeps that spacing when it runs (the lemma above), but
  neither \<open>chatCompletion\<close> nor \<open>fimCompletion\<close> calls it: a call issues its request
  at the time it is made and leaves \<open>lastRequestTime\<close> as it was.  Against a service
  that answers in 5 ms, three successive calls on a fresh client (two of
  \<open>chatCompletion\<close>, one of \<open>fimCompletion\<close>) issue their requests at 1000, 1005 and
  1010, and \<open>lastRequestTime\<close> is 0 afterwards, while \<open>minRequestInterval\<close> is 100.
\<close>

theorem chatCompletion_back_to_back:
  "(let (r1, this1, w1) =
          chatCompletion (service_replying (body_with_choices []) 5) example_client [] no_options
            \<lparr>clock = 1000, sent = []\<rparr>;
        (r2, this2, w2) =
          chatCompletion (service_replying (body_with_choices []) 5) this1 [] no_options w1;
        (r3, this3, w3) =
          fimCompletion (\<lambda>is. ''invalid'') (service_replying (body_with_choices []) 5) this2
            ''def f(''
            \<lparr>temperature = None, top_p = None, max_tokens = None, stop = None, suffix = None\<rparr>
            w2
    in map fst (sent w3) = [1000, 1005, 1010]
       \<and> map (\<lambda>x. url (snd x)) (sent w3)
           = [''/chat/completions'', ''/chat/completions'', ''/fim/completions'']
       \<and> lastRequestTime this3 = 0
       \<and> minRequestInterval this3 = 100)"
  by (simp add: chatCompletion_def fimCompletion_def post_def Let_def service_replying_def
      example_client_def)


section \<open>Extraction of fenced blocks\<close>

lemma at_fence_fence: "at_fence (fence @ r)"
  by (simp add: at_fence_def fence_def)

lemma drop_fence: "drop 3 (fence @ r) = r"
  by (simp add: fence_def)

lemma at_fence_backtick: "at_fence (c # cs) \<Longrightarrow> c = CHR 0x60"
  by (simp add: at_fence_def fence_def)

lemma fence_free_Nil: "fence_free []"
  by (simp add: fence_free_def fence_def at_fence_def)

lemma fence_free_Cons:
  "fence_free (c # s) \<longleftrightarrow> \<not> at_fence (c # s @ ''``'') \<and> fence_free s"
  by (simp add: fence_free_def split: option.splits)

lemma not_at_fence_before_fence:
  assumes "\<not> at_fence (c # s @ ''``'')"
  shows "\<not> at_fence (c # s @ fence @ r)"
proof (cases s)
  case Nil
  with assms show ?thesis by (simp add: at_fence_def fence_def)
next
  case (Cons x s')
  with assms show ?thesis by (cases s') (simp_all add: at_fence_def fence_def)
qed

lemma upto_fence_fence: "upto_fence (fence @ r) = Some ([], r)"
  by (simp add: fence_def at_fence_def)

lemma upto_fence_first:
  "fence_free a \<Longrightarrow> upto_fence (a @ fence @ r) = Some (a, r)"
proof (induction a)
  case Nil
  show ?case by (simp add: upto_fence_fence)
next
  case (Cons c a)
  then have "\<not> at_fence (c # a @ fence @ r)" and "fence_free a"
    by (simp_all add: fence_free_Cons not_at_fence_before_fence)
  with Cons.IH show ?case by simp
qed

lemma upto_fence_None_Cons:
  "upto_fence (c # cs) = None \<longleftrightarrow> \<not> at_fence (c # cs) \<and> upto_fence cs = None"
  by (simp split: option.splits)

lemma match_at_no_fence: "\<not> at_fence s \<Longrightarrow> match_at s = None"
  by (simp add: match_at_def)

lemma matchAll_Nil: "matchAll [] = []"
  by (subst matchAll.simps) (simp add: match_at_def fence_def at_fence_def)

lemma matchAll_skip: "match_at (c # cs) = None \<Longrightarrow> matchAll (c # cs) = matchAll cs"
  by (subst matchAll.simps) simp

lemma matchAll_match: "match_at s = Some (g, r) \<Longrightarrow> matchAll s = g # matchAll r"
  by (subst matchAll.simps) simp

lemma matchAll_no_fence: "upto_fence s = None \<Longrightarrow> matchAll s = []"
proof (induction s)
  case Nil
  show ?case by (rule matchAll_Nil)
next
  case (Cons c cs)
  from Cons.prems have "\<not> at_fence (c # cs) \<and> upto_fence cs = None"
    unfolding upto_fence_None_Cons .
  with Cons.IH show ?case by (simp add: matchAll_skip match_at_no_fence)
qed

lemma matchAll_prefix:
  "fence_free p0 \<Longrightarrow> matchAll (p0 @ fence @ r) = matchAll (fence @ r)"
proof (induction p0)
  case Nil
  show ?case by simp
next
  case (Cons c p0)
  then have "\<not> at_fence (c # p0 @ fence @ r)" and "fence_free p0"
    by (simp_all add: fence_free_Cons not_at_fence_before_fence)
  with Cons.IH show ?case by (simp add: matchAll_skip match_at_no_fence)
qed

lemma is_word_not_newline: "\<not> is_word (CHR 0x0A)"
  by (simp add: is_word_def)

lemma match_at_block:
  assumes "list_all is_word t" and "fence_free a"
  shows "match_at (fence @ t @ ''\<newline>'' @ a @ fence @ r) = Some (a, r)"
proof -
  have "dropWhile is_word (t @ ''\<newline>'' @ a @ fence @ r) = ''\<newline>'' @ a @ fence @ r"
    using assms(1) by (simp add: list_all_iff is_word_not_newline)
  moreover have "at_fence (fence @ t @ ''\<newline>'' @ a @ fence @ r)"
    by (rule at_fence_fence)
  moreover have "drop 3 (fence @ t @ ''\<newline>'' @ a @ fence @ r) = t @ ''\<newline>'' @ a @ fence @ r"
    by (rule drop_fence)
  ultimately show ?thesis
    using upto_fence_first [OF assms(2), of r] by (simp add: match_at_def)
qed

lemma matchAll_block:
  assumes "fence_free p0" and "list_all is_word t" and "fence_free a"
  shows "matchAll (p0 @ fence @ t @ ''\<newline>'' @ a @ fence @ r) = a # matchAll r"
  using matchAll_prefix [OF assms(1)] match_at_block [OF assms(2,3)]
  by (simp add: matchAll_match)

lemma formatResponse_cases:
  "choices completion = c # cs \<Longrightarrow>
   formatResponse completion =
     Inr (if matchAll (content (message c)) = [] then content (message c)
          else join ''\<newline>\<newline>'' (map trim (matchAll (content (message c)))))"
  by (simp add: formatResponse_def Let_def)

text \<open>
  What the extractor does recognise.  \<open>formatResponse\<close> returns the groups of the
  matches of its expression (three backticks, word characters \<open>[A-Za-z0-9_]\<close>, a line
  feed, the shortest text up to the next three backticks), each trimmed, joined by a
  blank line, and the content itself when nothing matches.  A block whose tag \<open>t1\<close> is
  made of word characters, after a text \<open>p0\<close> and around a content \<open>a\<close> that hold no
  fence, is the first match, and the search goes on after its closing fence.  So for
  two such blocks \<open>a\<close> and \<open>b\<close> the result is \<open>trim a\<close>, a blank line, \<open>trim b\<close>; for
  one it is \<open>trim a\<close>; for a content without any fence it is the content.
\<close>

lemma formatResponse_extracts_blocks:
  assumes "choices completion = c # cs" and "content (message c) = s"
  shows "formatResponse completion =
           Inr (if matchAll s = [] then s else join ''\<newline>\<newline>'' (map trim (matchAll s)))
    \<and> (fence_free p0 \<and> list_all is_word t1 \<and> fence_free a \<longrightarrow>
         matchAll (p0 @ fence @ t1 @ ''\<newline>'' @ a @ fence @ r) = a # matchAll r)
    \<and> (upto_fence r = None \<longrightarrow> matchAll r = [])
    \<and> (s = p0 @ fence @ t1 @ ''\<newline>'' @ a @ fence @ p1 @ fence @ t2 @ ''\<newline>'' @ b @ fence @ p2
         \<and> fence_free p0 \<and> list_all is_word t1 \<and> fence_free a
         \<and> fence_free p1 \<and> list_all is_word t2 \<and> fence_free b
         \<and> upto_fence p2 = None \<longrightarrow>
         formatResponse completion = Inr (trim a @ ''\<newline>\<newline>'' @ trim b))
    \<and> (s = p0 @ fence @ t1 @ ''\<newline>'' @ a @ fence @ p2
         \<and> fence_free p0 \<and> list_all is_word t1 \<and> fence_free a \<and> upto_fence p2 = None \<longrightarrow>
         formatResponse completion = Inr (trim a))
    \<and> (upto_fence s = None \<longrightarrow> formatResponse completion = Inr s)"
proof -
  note f = formatResponse_cases [OF assms(1), unfolded assms(2)]
  have c2: "fence_free p0 \<and> list_all is_word t1 \<and> fence_free a \<longrightarrow>
      matchAll (p0 @ fence @ t1 @ ''\<newline>'' @ a @ fence @ r) = a # matchAll r"
    using matchAll_block by blast
  have c3: "upto_fence r = None \<longrightarrow> matchAll r = []"
    using matchAll_no_fence by blast
  have c4: "s = p0 @ fence @ t1 @ ''\<newline>'' @ a @ fence @ p1 @ fence @ t2 @ ''\<newline>'' @ b @ fence @ p2
         \<and> fence_free p0 \<and> list_all is_word t1 \<and> fence_free a
         \<and> fence_free p1 \<and> list_all is_word t2 \<and> fence_free b
         \<and> upto_fence p2 = None \<longrightarrow>
         formatResponse completion = Inr (trim a @ ''\<newline>\<newline>'' @ trim b)"
  proof (intro impI, elim conjE)
    assume "s = p0 @ fence @ t1 @ ''\<newline>'' @ a @ fence @ p1 @ fence @ t2 @ ''\<newline>'' @ b @ fence @ p2"
      "fence_free p0" "list_all is_word t1" "fence_free a"
      "fence_free p1" "list_all is_word t2" "fence_free b" "upto_fence p2 = None"
    then have "matchAll s = [a, b]"
      by (simp only: matchAll_block matchAll_no_fence)
    then show "formatResponse completion = Inr (trim a @ ''\<newline>\<newline>'' @ trim b)"
      unfolding f by simp
  qed
  have c5: "s = p0 @ fence @ t1 @ ''\<newline>'' @ a @ fence @ p2
         \<and> fence_free p0 \<and> list_all is_word t1 \<and> fence_free a \<and> upto_fence p2 = None \<longrightarrow>
         formatResponse completion = Inr (trim a)"
  proof (intro impI, elim conjE)
    assume "s = p0 @ fence @ t1 @ ''\<newline>'' @ a @ fence @ p2"
      "fence_free p0" "list_all is_word t1" "fence_free a" "upto_fence p2 = None"
    then have "matchAll s = [a]"
      by (simp only: matchAll_block matchAll_no_fence)
    then show "formatResponse completion = Inr (trim a)"
      unfolding f by simp
  qed
  have c6: "upto_fence s = None \<longrightarrow> formatResponse completion = Inr s"
    unfolding f by (simp add: matchAll_no_fence)
  show ?thesis
    by (intro conjI f c2 c3 c4 c5 c6)
qed


lemma match_at_other_tag:
  assumes "\<not> list_all is_word t" and "CHR 0x0A \<notin> set t"
  shows "match_at (fence @ t @ ''\<newline>'' @ r) = None"
proof -
  from assms(1) have "dropWhile is_word t \<noteq> []"
    by (simp add: dropWhile_eq_Nil_conv list_all_iff)
  then obtain c t' where d: "dropWhile is_word t = c # t'"
    by (cases "dropWhile is_word t") auto
  then have "c \<in> set t"
    by (metis list.set_intros(1) set_dropWhileD)
  with assms(2) have c: "c \<noteq> CHR 0x0A" by auto
  from d have "\<not> is_word c"
    by (metis hd_dropWhile list.distinct(1) list.sel(1))
  with \<open>c \<in> set t\<close> have "dropWhile is_word (t @ ''\<newline>'' @ r) = c # t' @ ''\<newline>'' @ r"
    using d by (simp add: dropWhile_append1)
  moreover have "drop 3 (fence @ t @ ''\<newline>'' @ r) = t @ ''\<newline>'' @ r"
    by (rule drop_fence)
  ultimately show ?thesis
    using c by (simp add: match_at_def)
qed

lemma upto_fence_suffix: "upto_fence (a @ b) = None \<Longrightarrow> upto_fence b = None"
proof (induction a)
  case Nil
  then show ?case by simp
next
  case (Cons x a)
  from Cons.prems have "upto_fence (x # (a @ b)) = None" by simp
  then have "upto_fence (a @ b) = None"
    unfolding upto_fence_None_Cons by simp
  with Cons.IH show ?case .
qed

lemma match_at_last_fence:
  assumes "upto_fence p2 = None"
  shows "match_at (fence @ p2) = None"
proof (cases "dropWhile is_word p2")
  case Nil
  show ?thesis
    unfolding match_at_def drop_fence Nil by simp
next
  case (Cons c body)
  have "p2 = takeWhile is_word p2 @ c # body"
    unfolding Cons [symmetric] by simp
  with assms have "upto_fence ((takeWhile is_word p2 @ [c]) @ body) = None" by simp
  then have "upto_fence body = None"
    by (rule upto_fence_suffix)
  then show ?thesis
    unfolding match_at_def drop_fence Cons by simp
qed

lemma matchAll_other_tag:
  assumes "fence_free p0" and "\<not> list_all is_word t" and "CHR 0x0A \<notin> set t"
    and "fence_free (''``'' @ t @ ''\<newline>'' @ a)" and "upto_fence (''``'' @ p2) = None"
  shows "matchAll (p0 @ fence @ t @ ''\<newline>'' @ a @ fence @ p2) = []"
proof -
  have p2: "upto_fence p2 = None"
    using assms(5) by (rule upto_fence_suffix)
  have 1: "matchAll (p0 @ fence @ t @ ''\<newline>'' @ a @ fence @ p2)
      = matchAll (fence @ t @ ''\<newline>'' @ a @ fence @ p2)"
    using assms(1) by (rule matchAll_prefix)
  have e1: "fence @ t @ ''\<newline>'' @ a @ fence @ p2
      = CHR 0x60 # ((''``'' @ t @ ''\<newline>'' @ a) @ fence @ p2)"
    by (simp add: fence_def)
  have "match_at (fence @ t @ ''\<newline>'' @ a @ fence @ p2) = None"
    using assms(2,3) by (rule match_at_other_tag)
  then have 2: "matchAll (fence @ t @ ''\<newline>'' @ a @ fence @ p2)
      = matchAll ((''``'' @ t @ ''\<newline>'' @ a) @ fence @ p2)"
    unfolding e1 by (rule matchAll_skip)
  have 3: "matchAll ((''``'' @ t @ ''\<newline>'' @ a) @ fence @ p2) = matchAll (fence @ p2)"
    using assms(4) by (rule matchAll_prefix)
  have e2: "fence @ p2 = CHR 0x60 # (''``'' @ p2)"
    by (simp add: fence_def)
  from match_at_last_fence [OF p2]
  have 4: "matchAll (fence @ p2) = matchAll (''``'' @ p2)"
    unfolding e2 by (rule matchAll_skip)
  have 5: "matchAll (''``'' @ p2) = []"
    using assms(5) by (rule matchAll_no_fence)
  show ?thesis
    by (simp only: 1 2 3 4 5)
qed

lemma formatResponse_other_tag:
  assumes "choices completion = c # cs"
    and "content (message c) = p0 @ fence @ t @ ''\<newline>'' @ a @ fence @ p2"
    and "fence_free p0" and "\<not> list_all is_word t" and "CHR 0x0A \<notin> set t"
    and "fence_free (''``'' @ t @ ''\<newline>'' @ a)" and "upto_fence (''``'' @ p2) = None"
  shows "formatResponse completion = Inr (content (message c))"
proof -
  have "matchAll (content (message c)) = []"
    unfolding assms(2) using assms(3-7) by (rule matchAll_other_tag)
  then show ?thesis
    by (simp add: formatResponse_cases [OF assms(1)])
qed


lemma matchAll_cpp: "matchAll ''```c++\<newline>int x;\<newline>```'' = []"
  by code_simp

lemma matchAll_two_cpp:
  "matchAll ''```c++\<newline>int a;\<newline>```\<newline>Then:\<newline>```c++\<newline>int b;\<newline>```'' = [''Then:\<newline>'']"
  by code_simp

lemma spec_blocks_cpp:
  "spec_fenced_blocks ''```c++\<newline>int x;\<newline>```'' = [(''c++'', ''\<newline>int x;\<newline>'')]"
  by code_simp

lemma spec_blocks_two_cpp:
  "spec_fenced_blocks ''```c++\<newline>int a;\<newline>```\<newline>Then:\<newline>```c++\<newline>int b;\<newline>```''
   = [(''c++'', ''\<newline>int a;\<newline>''), (''c++'', ''\<newline>int b;\<newline>'')]"
  by code_simp

lemma trims_cpp:
  "trim ''\<newline>int x;\<newline>'' = ''int x;''"
  "trim ''\<newline>int a;\<newline>'' = ''int a;''"
  "trim ''\<newline>int b;\<newline>'' = ''int b;''"
  "trim ''Then:\<newline>'' = ''Then:''"
  by (simp_all add: trim_def is_space_def)

text \<open>
  Claim C5: the extractor returns the trimmed contents of the fenced blocks of a text,
  joined by a blank line, a block being delimited by triple backticks with an optional
  language tag after the opening fence.  The code does so for tags of word characters
  only (the lemmas above).  A block with any other tag is never matched at its opening
  fence (\<open>match_at_other_tag\<close>), and a text whose only block is such a one comes back
  as it is (\<open>formatResponse_other_tag\<close>).  At the block tagged \<open>c++\<close>, a tag that
  \<open>createPrompt\<close> itself writes after the fence for that language, the result is the
  text with its fences, where the claim gives \<open>int x;\<close>.  At two such blocks with
  \<open>Then:\<close> between them the closing fence of the first opens the only match and the
  result is \<open>Then:\<close>, where the claim gives the two contents.
\<close>

theorem formatResponse_misses_tagged_block:
  "formatResponse (completion_saying ''```c++\<newline>int x;\<newline>```'') = Inr ''```c++\<newline>int x;\<newline>```''
   \<and> spec_extract ''```c++\<newline>int x;\<newline>```'' = ''int x;''
   \<and> formatResponse (completion_saying
         ''```c++\<newline>int a;\<newline>```\<newline>Then:\<newline>```c++\<newline>int b;\<newline>```'') = Inr ''Then:''
   \<and> spec_extract ''```c++\<newline>int a;\<newline>```\<newline>Then:\<newline>```c++\<newline>int b;\<newline>```''
       = ''int a;\<newline>\<newline>int b;''
   \<and> content (createPrompt ''int x;'' (Some ''c++'') Task_fix None ! 1)
       = ''Here is the c++ code:\<newline>\<newline>```c++\<newline>int x;\<newline>```''"
  by (simp add: formatResponse_def completion_saying_def matchAll_cpp matchAll_two_cpp
      spec_blocks_cpp spec_blocks_two_cpp spec_extract_def trims_cpp
      createPrompt_def Let_def truthy_def or_empty_def)

lemma witness_parts:
  "fence_free ''Here you go:\<newline>''"
  "list_all is_word ''python''"
  "fence_free ''print(1)\<newline>''"
  "fence_free ''\<newline>and the `test`:\<newline>''"
  "list_all is_word []"
  "fence_free ''assert f()\<newline>''"
  "upto_fence ''\<newline>Done.'' = None"
  by (simp_all add: fence_free_def at_fence_def fence_def is_word_def)

lemma witness_trims:
  "trim ''print(1)\<newline>'' = ''print(1)''" "trim ''assert f()\<newline>'' = ''assert f()''"
  by (simp_all add: trim_def is_space_def)

lemma formatResponse_extracts_blocks_example:
  "formatResponse (completion_saying
     ''Here you go:\<newline>```python\<newline>print(1)\<newline>```\<newline>and the `test`:\<newline>```\<newline>assert f()\<newline>```\<newline>Done.'')
   = Inr ''print(1)\<newline>\<newline>assert f()''
   \<and> formatResponse (completion_saying ''no code here'') = Inr ''no code here''"
proof -
  have c: "choices (completion_saying x) =
      [\<lparr>index = 0, message = \<lparr>role = ''assistant'', content = x\<rparr>, finish_reason = Some ''stop''\<rparr>]"
    for x by (simp add: completion_saying_def)
  have m: "content (message \<lparr>index = 0, message = \<lparr>role = ''assistant'', content = x\<rparr>,
      finish_reason = Some ''stop''\<rparr>) = x" for x by simp
  have parts: "''Here you go:\<newline>```python\<newline>print(1)\<newline>```\<newline>and the `test`:\<newline>```\<newline>assert f()\<newline>```\<newline>Done.''
      = ''Here you go:\<newline>'' @ fence @ ''python'' @ ''\<newline>'' @ ''print(1)\<newline>'' @ fence
        @ ''\<newline>and the `test`:\<newline>'' @ fence @ [] @ ''\<newline>'' @ ''assert f()\<newline>'' @ fence @ ''\<newline>Done.''
      \<and> fence_free ''Here you go:\<newline>'' \<and> list_all is_word ''python'' \<and> fence_free ''print(1)\<newline>''
      \<and> fence_free ''\<newline>and the `test`:\<newline>'' \<and> list_all is_word [] \<and> fence_free ''assert f()\<newline>''
      \<and> upto_fence ''\<newline>Done.'' = None"
    using witness_parts by (simp add: fence_def)
  have none: "upto_fence ''no code here'' = None"
    by (simp add: at_fence_def fence_def)
  note two = formatResponse_extracts_blocks [OF c m, THEN conjunct2, THEN conjunct2,
      THEN conjunct2, THEN conjunct1, THEN mp, OF parts]
  note zero = formatResponse_extracts_blocks [OF c m, THEN conjunct2, THEN conjunct2,
      THEN conjunct2, THEN conjunct2, THEN conjunct2, THEN mp, OF none]
  from two zero show ?thesis
    by (simp add: witness_trims)
qed



section \<open>Fenced blocks of the prompt\<close>

lemma not_at_fence_append:
  assumes "\<not> at_fence (x # a)" and "c \<noteq> CHR 0x60"
  shows "\<not> at_fence (x # a @ c # b)"
proof (cases a)
  case Nil
  with assms show ?thesis by (simp add: at_fence_def fence_def)
next
  case (Cons y a')
  with assms show ?thesis by (cases a') (simp_all add: at_fence_def fence_def)
qed

lemma upto_fence_append_None:
  assumes "upto_fence a = None" and "c \<noteq> CHR 0x60" and "upto_fence (c # b) = None"
  shows "upto_fence (a @ c # b) = None"
  using assms(1)
proof (induction a)
  case Nil
  from assms(3) show ?case by simp
next
  case (Cons x a)
  from Cons.prems have "\<not> at_fence (x # a) \<and> upto_fence a = None"
    unfolding upto_fence_None_Cons .
  with Cons.IH assms(2) show ?case
    by (simp add: not_at_fence_append)
qed

lemma fence_free_line:
  assumes "upto_fence l = None" and "upto_fence code = None"
  shows "fence_free (l @ ''\<newline>'' @ code @ ''\<newline>'')"
proof -
  have "upto_fence (code @ CHR 0x0A # ''``'') = None"
    using assms(2) by (rule upto_fence_append_None) (simp_all add: at_fence_def fence_def)
  then have "upto_fence (CHR 0x0A # code @ CHR 0x0A # ''``'') = None"
    by (simp add: at_fence_def fence_def)
  then have "upto_fence (l @ CHR 0x0A # code @ CHR 0x0A # ''``'') = None"
    by (intro upto_fence_append_None assms(1)) simp_all
  then show ?thesis by (simp add: fence_free_def)
qed

lemma fence_free_header:
  assumes "upto_fence (or_empty language) = None"
  shows "fence_free (header language)"
proof (cases "truthy language")
  case True
  with assms have "upto_fence (the language) = None" by (simp add: or_empty_def)
  then have "upto_fence (the language @ CHR '' '' # ''code:\<newline>\<newline>``'') = None"
    by (rule upto_fence_append_None) (simp_all add: at_fence_def fence_def)
  with True show ?thesis
    by (simp add: fence_free_def header_def at_fence_def fence_def)
next
  case False
  then show ?thesis
    by (simp add: fence_free_def header_def at_fence_def fence_def)
qed

lemma spec_fenced_blocks_none: "upto_fence s = None \<Longrightarrow> spec_fenced_blocks s = []"
  by (subst spec_fenced_blocks.simps) simp

lemma spec_fenced_blocks_Nil: "spec_fenced_blocks [] = []"
  by (subst spec_fenced_blocks.simps) simp

lemma spec_fenced_blocks_step:
  assumes "fence_free h" and "fence_free b"
  shows "spec_fenced_blocks (h @ fence @ b @ fence @ r) =
    (takeWhile (\<lambda>c. \<not> is_space c) b, dropWhile (\<lambda>c. \<not> is_space c) b) # spec_fenced_blocks r"
  using upto_fence_first [OF assms(1), of "b @ fence @ r"] upto_fence_first [OF assms(2), of r]
  by (subst spec_fenced_blocks.simps) simp

lemma spec_fenced_blocks_last:
  assumes "fence_free h" and "fence_free b"
  shows "spec_fenced_blocks (h @ fence @ b @ fence) =
    [(takeWhile (\<lambda>c. \<not> is_space c) b, dropWhile (\<lambda>c. \<not> is_space c) b)]"
  using spec_fenced_blocks_step [OF assms, of "[]"] by (simp add: spec_fenced_blocks_Nil)

lemma createPrompt_user_content:
  "content (createPrompt code language t sfx ! 1) =
     header language @ fence @ (or_empty language @ ''\<newline>'' @ code @ ''\<newline>'') @ fence
     @ (if t = Task_fim \<and> truthy sfx
        then ''\<newline>\<newline>The code should end with:\<newline>\<newline>'' @ fence
          @ (or_empty language @ ''\<newline>'' @ the sfx @ ''\<newline>'') @ fence
        else [])"
  by (simp add: createPrompt_def header_def fence_def Let_def)

lemma fence_free_connective: "fence_free ''\<newline>\<newline>The code should end with:\<newline>\<newline>''"
  by (simp add: fence_free_def at_fence_def fence_def)

text \<open>
  Claim C7, as the code has it.  The user content is the header, a fenced block around
  the code and, for the fill-in-the-middle task with a non-empty suffix, the connective
  \<open>The code should end with:\<close> and a second fenced block around the suffix; nothing
  else.  Inputs are interpolated as they are, so when the code, the language and the
  suffix hold no triple backtick the content has exactly two fenced blocks in the first
  case and exactly one otherwise.
\<close>

theorem createPrompt_fenced_blocks:
  "content (createPrompt code language t sfx ! 1) =
     header language @ fence @ (or_empty language @ ''\<newline>'' @ code @ ''\<newline>'') @ fence
     @ (if t = Task_fim \<and> truthy sfx
        then ''\<newline>\<newline>The code should end with:\<newline>\<newline>'' @ fence
          @ (or_empty language @ ''\<newline>'' @ the sfx @ ''\<newline>'') @ fence
        else [])
   \<and> (upto_fence code = None \<and> upto_fence (or_empty language) = None
       \<and> upto_fence (or_empty sfx) = None \<longrightarrow>
       length (spec_fenced_blocks (content (createPrompt code language t sfx ! 1))) =
         (if t = Task_fim \<and> truthy sfx then 2 else 1))"
proof (intro conjI impI, goal_cases)
  case 1
  show ?case by (rule createPrompt_user_content)
next
  case 2
  then have c: "upto_fence code = None" and l: "upto_fence (or_empty language) = None"
    and s: "upto_fence (or_empty sfx) = None" by simp_all
  note h = fence_free_header [OF l]
  note b1 = fence_free_line [OF l c]
  show ?case
  proof (cases "t = Task_fim \<and> truthy sfx")
    case True
    then have "or_empty sfx = the sfx" by (simp add: or_empty_def)
    with s have "upto_fence (the sfx) = None" by simp
    note b2 = fence_free_line [OF l this]
    show ?thesis
      unfolding createPrompt_user_content if_P [OF True]
        spec_fenced_blocks_step [OF h b1] spec_fenced_blocks_last [OF fence_free_connective b2]
      by simp
  next
    case False
    show ?thesis
      unfolding createPrompt_user_content if_not_P [OF False] append_Nil2
        spec_fenced_blocks_last [OF h b1]
      by simp
  qed
qed

text \<open>
  The claim as written counts two blocks for every input.  A code that itself holds a
  fenced block gives a user content with three.
\<close>

theorem createPrompt_fenced_blocks_counterexample:
  "length (spec_fenced_blocks
     (content (createPrompt ''```\<newline>x\<newline>```'' None Task_fim (Some ''y'') ! 1))) = 3"
  unfolding createPrompt_user_content by code_simp


theorem createPrompt_fenced_blocks_witness:
  "length (spec_fenced_blocks
     (content (createPrompt ''a = 1'' (Some ''python'') Task_fim (Some ''return a'') ! 1))) = 2
   \<and> length (spec_fenced_blocks
     (content (createPrompt ''a = 1'' (Some ''python'') Task_fim None ! 1))) = 1
   \<and> content (createPrompt ''a = 1'' (Some ''python'') Task_fim (Some ''return a'') ! 1) =
       ''Here is the python code:\<newline>\<newline>```python\<newline>a = 1\<newline>```\<newline>\<newline>The code should end with:\<newline>\<newline>```python\<newline>return a\<newline>```''"
proof -
  have p: "upto_fence ''a = 1'' = None \<and> upto_fence (or_empty (Some ''python'')) = None
      \<and> upto_fence (or_empty (Some ''return a'')) = None"
    "upto_fence ''a = 1'' = None \<and> upto_fence (or_empty (Some ''python'')) = None
      \<and> upto_fence (or_empty None) = None"
    by (simp_all add: or_empty_def truthy_def at_fence_def fence_def)
  note two = createPrompt_fenced_blocks [THEN conjunct2, THEN mp, OF p(1), of Task_fim]
  note one = createPrompt_fenced_blocks [THEN conjunct2, THEN mp, OF p(2), of Task_fim]
  note shape = createPrompt_fenced_blocks [THEN conjunct1, of "''a = 1''" "Some ''python''"
      Task_fim "Some ''return a''"]
  from two one shape show ?thesis
    by (simp add: truthy_def header_def or_empty_def fence_def)
qed

end
